theory Spec2Isabelle
  imports Main "HOL-Library.AList" "HOL-Library.Sublist"
begin

section \<open>The session-managed HTTP transport of the MCP quotes server\<close>

text \<open>
  A shallow embedding of the class \<open>HttpTransportService\<close>. The fields of the class are
  a record; every method is a function that takes the record and returns the updated one.
  The collaborators that are not part of the repository (the SDK's streamable transport,
  the protocol engine factory, the file system, \<open>randomUUID\<close>, the listening socket) are
  parameters collected in the record \<open>env\<close>. Calls into them are written to a trace, so
  that the order and the number of calls can be stated.
\<close>

subsection \<open>Values exchanged with the HTTP layer\<close>

datatype json = JNull | JNum int | JStr string | JObj "(string \<times> json) list"

datatype httpMethod = POST | GET | DELETE

record request =
  reqMethod :: httpMethod
  hostHeader :: "string option"
  mcpSessionIdHeader :: "string option"
  reqBody :: json

record response =
  headersSent :: bool
  statusCode :: nat
  resBody :: "json option"

text \<open>The response object Express hands to the first middleware of a request.\<close>

definition newResponse :: response where
  "newResponse = \<lparr>headersSent = False, statusCode = 200, resBody = None\<rparr>"

text \<open>\<open>res.status(code).json(body)\<close>\<close>

definition statusJson :: "response \<Rightarrow> nat \<Rightarrow> json \<Rightarrow> response" where
  "statusJson res code b = res\<lparr>headersSent := True, statusCode := code, resBody := Some b\<rparr>"

text \<open>
  JavaScript truthiness of a value of type \<open>string | undefined\<close>: \<open>undefined\<close> and the
  empty string are falsy.
\<close>

fun truthy :: "string option \<Rightarrow> bool" where
  "truthy None = False"
| "truthy (Some s) = (s \<noteq> [])"

text \<open>\<open>s.includes(sub)\<close>\<close>

fun str_includes :: "string \<Rightarrow> string \<Rightarrow> bool" where
  "str_includes [] sub = (sub = [])"
| "str_includes (c # cs) sub = (prefix sub (c # cs) \<or> str_includes cs sub)"

subsection \<open>Types of \<open>http-transport-types.ts\<close>\<close>

record httpsConfig =
  httpsEnabled :: bool
  certPath :: "string option"
  keyPath :: "string option"

record securityConfig =
  allowedHosts :: "string list"
  allowedOrigins :: "string list"

record HttpServerConfig =
  enabled :: bool
  port :: int
  host :: string
  https :: httpsConfig
  security :: securityConfig

record HttpTransportSession =
  sessionId :: string
  transport :: nat
  createdAt :: int
  lastActivity :: int

text \<open>
  An optional property of an options object: the property is absent, it is present with
  the value \<open>undefined\<close>, or it is present with a value.
\<close>

datatype 'a optional = Absent | Undefined | Value 'a

record HttpServerOptions =
  jsonLimit :: "string optional"
  enableLogging :: "bool optional"
  sessionTimeout :: "int optional"

datatype HttpTransportErrorType =
  INVALID_SESSION | SESSION_NOT_FOUND | HTTPS_CONFIG_ERROR
  | SERVER_STARTUP_ERROR | TRANSPORT_INIT_ERROR | SESSION_TIMEOUT

text \<open>The fields of \<open>Partial<HttpTransportError>\<close> that \<open>sendError\<close> is called with.\<close>

record HttpTransportError =
  errType :: HttpTransportErrorType
  errStatusCode :: nat
  errMessage :: string
  errContext :: "json option"

subsection \<open>The trace of calls into the collaborators\<close>

datatype logLevel = LDebug | LInfo | LWarn | LError

datatype event =
  Log logLevel string
  | TransportHandleRequest nat httpMethod
  | TransportClose nat
  | ServerListen string int
  | ServerClose

subsection \<open>The collaborators\<close>

text \<open>
  What a call of \<open>transport.handleRequest\<close> does, as far as the service can observe it:
  it may run the session-id generator and the session-initialized callback it was
  constructed with, write the response, close itself, or throw.
\<close>

datatype sdkStep =
  GenerateSession
  | WriteResponse nat json
  | CloseTransport
  | ThrowError string

text \<open>
  What \<open>transport.close()\<close> does: it returns, it throws, or it invokes the \<open>onclose\<close>
  hook of the transport before it returns.
\<close>

datatype closeBehaviour = CloseReturns | CloseThrows string | CloseInvokesOnclose

datatype fileState = Missing | Unreadable | Readable string

record env =
  isInitializeRequest :: "json \<Rightarrow> bool"
  randomUUID :: "nat \<Rightarrow> string"
  mcpServerFactory :: "nat \<Rightarrow> string option"
  mcpConnect :: "nat \<Rightarrow> string option"
  sdkHandleRequest :: "nat \<Rightarrow> request \<Rightarrow> sdkStep list"
  sdkClose :: "nat \<Rightarrow> closeBehaviour"
  files :: "string \<Rightarrow> fileState"
  listenError :: "string option"

subsection \<open>The fields of the service\<close>

text \<open>
  \<open>sessions\<close> is the JavaScript \<open>Map\<close>, kept in insertion order. \<open>server\<close> and
  \<open>cleanupInterval\<close> say whether the field is defined. The last four fields are not fields
  of the class: \<open>transportIds\<close> holds \<open>transport.sessionId\<close> of every transport object
  that has one, \<open>nextTransport\<close> numbers the transport objects, \<open>uuidCalls\<close> counts the
  calls of \<open>randomUUID\<close> by the session-id generator, and \<open>trace\<close> is the trace.
\<close>

record service =
  sessions :: "(string \<times> HttpTransportSession) list"
  config :: HttpServerConfig
  options :: HttpServerOptions
  totalSessionsCreated :: nat
  totalSessionsTerminated :: nat
  isRunning :: bool
  server :: bool
  cleanupInterval :: bool
  startTime :: int
  transportIds :: "(nat \<times> string) list"
  nextTransport :: nat
  uuidCalls :: nat
  trace :: "event list"

definition logger :: "logLevel \<Rightarrow> string \<Rightarrow> service \<Rightarrow> service" where
  "logger lvl msg w = w\<lparr>trace := trace w @ [Log lvl msg]\<rparr>"

text \<open>A statement completes normally or throws.\<close>

datatype 'a completion = Normal 'a | Throw string

subsection \<open>Construction and validation of the configuration\<close>

text \<open>\<open>fs.existsSync\<close> and \<open>fs.readFileSync\<close>\<close>

definition existsSync :: "env \<Rightarrow> string \<Rightarrow> bool" where
  "existsSync e p = (files e p \<noteq> Missing)"

definition readFileSync :: "env \<Rightarrow> string \<Rightarrow> string completion" where
  "readFileSync e p =
     (case files e p of
        Readable c \<Rightarrow> Normal c
      | Unreadable \<Rightarrow> Throw (''EACCES: permission denied, open '' @ p)
      | Missing \<Rightarrow> Throw (''ENOENT: no such file or directory, open '' @ p))"

text \<open>
  The body of the \<open>try\<close> block of \<open>validateHttpsCertificates\<close>. The paths were checked
  to be truthy by the caller; a path that is \<open>undefined\<close> is printed as such.
\<close>

definition pathStr :: "string option \<Rightarrow> string" where
  "pathStr p = (case p of None \<Rightarrow> ''undefined'' | Some s \<Rightarrow> s)"

definition validateHttpsCertificates_try :: "env \<Rightarrow> HttpServerConfig \<Rightarrow> unit completion" where
  "validateHttpsCertificates_try e cfg =
     (let cp = pathStr (certPath (https cfg)); kp = pathStr (keyPath (https cfg)) in
      if \<not> existsSync e cp then Throw (''HTTPS certificate file not found: '' @ cp)
      else if \<not> existsSync e kp then Throw (''HTTPS private key file not found: '' @ kp)
      else case readFileSync e cp of
        Throw m \<Rightarrow> Throw m
      | Normal cert \<Rightarrow>
         (case readFileSync e kp of
            Throw m \<Rightarrow> Throw m
          | Normal key \<Rightarrow>
             if \<not> str_includes cert ''-----BEGIN CERTIFICATE-----''
             then Throw (''Invalid certificate file format: '' @ cp)
             else if \<not> str_includes key ''-----BEGIN'' \<or> \<not> str_includes key ''PRIVATE KEY-----''
             then Throw (''Invalid private key file format: '' @ kp)
             else Normal ()))"

text \<open>
  \<open>validateHttpsCertificates\<close>: the \<open>catch\<close> block logs and throws the error again.
  The result is the completion and the log entries written.
\<close>

definition validateHttpsCertificates :: "env \<Rightarrow> HttpServerConfig \<Rightarrow> unit completion \<times> event list" where
  "validateHttpsCertificates e cfg =
     (if \<not> httpsEnabled (https cfg) then (Normal (), [])
      else case validateHttpsCertificates_try e cfg of
        Normal u \<Rightarrow> (Normal (), [Log LInfo ''HTTPS certificates validated successfully''])
      | Throw m \<Rightarrow> (Throw m, [Log LError ''HTTPS certificate validation failed'']))"

definition validateConfig :: "env \<Rightarrow> HttpServerConfig \<Rightarrow> unit completion \<times> event list" where
  "validateConfig e cfg =
     (if port cfg = 0 \<or> port cfg < 1 \<or> port cfg > 65535
      then (Throw ''Invalid HTTP server configuration: port must be between 1 and 65535'', [])
      else if host cfg = []
      then (Throw ''Invalid HTTP server configuration: host is required'', [])
      else if httpsEnabled (https cfg)
      then (if \<not> truthy (certPath (https cfg)) \<or> \<not> truthy (keyPath (https cfg))
            then (Throw ''Invalid HTTP server configuration: HTTPS requires certPath and keyPath'', [])
            else validateHttpsCertificates e cfg)
      else (Normal (), []))"

text \<open>
  The object spread of the constructor: the defaults, overridden by every property that
  the options given have. A property given as \<open>undefined\<close> is present, so it overrides
  the default with \<open>undefined\<close>.
\<close>

definition mergeOptions :: "HttpServerOptions \<Rightarrow> HttpServerOptions" where
  "mergeOptions opts =
     \<lparr>jsonLimit = (case jsonLimit opts of
                     Absent \<Rightarrow> Value ''50mb'' | Undefined \<Rightarrow> Undefined | Value l \<Rightarrow> Value l),
      enableLogging = (case enableLogging opts of
                         Absent \<Rightarrow> Value True | Undefined \<Rightarrow> Undefined | Value b \<Rightarrow> Value b),
      sessionTimeout = (case sessionTimeout opts of
                          Absent \<Rightarrow> Value (30 * 60 * 1000) | Undefined \<Rightarrow> Undefined
                        | Value t \<Rightarrow> Value t)\<rparr>"

text \<open>
  The constructor. It validates first; \<open>createExpressApp\<close>, \<open>setupRoutes\<close> and
  \<open>setupSessionCleanup\<close> run only after the validation has returned, and none of them
  opens a socket: \<open>server\<close> stays undefined until \<open>start\<close>. The result is the new
  service, or the error thrown together with the trace written until then.
\<close>

definition newService :: "env \<Rightarrow> int \<Rightarrow> HttpServerConfig \<Rightarrow> HttpServerOptions \<Rightarrow> service completion \<times> event list" where
  "newService e now cfg opts =
     (case validateConfig e cfg of
        (Throw m, evs) \<Rightarrow> (Throw m, evs)
      | (Normal u, evs) \<Rightarrow>
          (Normal \<lparr>sessions = [], config = cfg, options = mergeOptions opts,
                   totalSessionsCreated = 0, totalSessionsTerminated = 0,
                   isRunning = False, server = False, cleanupInterval = True,
                   startTime = now, transportIds = [], nextTransport = 0, uuidCalls = 0,
                   trace = evs @ [Log LInfo ''HTTP Transport Service initialized'']\<rparr>,
           evs @ [Log LInfo ''HTTP Transport Service initialized'']))"

subsection \<open>The security middleware\<close>

text \<open>\<open>host.split(":")[0]\<close>\<close>

definition hostnameOf :: "string \<Rightarrow> string" where
  "hostnameOf h = takeWhile (\<lambda>c. c \<noteq> CHR '':'') h"

text \<open>
  The middleware returned by \<open>createDnsRebindingProtection\<close>. It either answers the
  request itself or calls \<open>next\<close>.
\<close>

datatype middlewareResult = Responded response "event list" | Next

definition createDnsRebindingProtection :: "string list \<Rightarrow> request \<Rightarrow> response \<Rightarrow> middlewareResult" where
  "createDnsRebindingProtection allowed req res =
     (if \<not> truthy (hostHeader req)
      then Responded
             (statusJson res 400
                (JObj [(''error'', JStr ''Bad Request''), (''message'', JStr ''Host header is required'')]))
             [Log LWarn ''Request rejected: Missing Host header'']
      else let hostname = hostnameOf (the (hostHeader req)) in
        if hostname \<noteq> [] \<and> hostname \<notin> set allowed \<and> ''*'' \<notin> set allowed
        then Responded
               (statusJson res 403
                  (JObj [(''error'', JStr ''Forbidden''), (''message'', JStr ''Host not allowed'')]))
               [Log LWarn ''Request rejected: Invalid host'']
        else Next)"

text \<open>
  The middleware in front of a handler \<open>next\<close>, as \<open>app.use\<close> composes them: the handler
  runs only when the middleware calls \<open>next\<close>, and then with the request, the response
  and the service as they were.
\<close>

definition withDnsRebindingProtection ::
  "(service \<Rightarrow> request \<Rightarrow> response \<Rightarrow> (unit completion \<times> service \<times> response) option)
   \<Rightarrow> service \<Rightarrow> request \<Rightarrow> response \<Rightarrow> (unit completion \<times> service \<times> response) option" where
  "withDnsRebindingProtection next w req res =
     (case createDnsRebindingProtection (allowedHosts (security (config w))) req res of
        Responded res' evs \<Rightarrow> Some (Normal (), w\<lparr>trace := trace w @ evs\<rparr>, res')
      | Next \<Rightarrow> next w req res)"

subsection \<open>Termination of a session\<close>

text \<open>
  \<open>terminateSession\<close> calls \<open>transport.close()\<close> before it deletes the entry. The
  transport is a collaborator: when its \<open>close\<close> invokes the \<open>onclose\<close> hook, the hook
  installed by \<open>createNewSession\<close> runs inside that call, and the hook calls
  \<open>terminateSession\<close> again. The nesting of these calls is bounded by a fuel argument;
  \<open>None\<close> says that the calls did not return within that depth.
\<close>

fun terminateSession :: "env \<Rightarrow> nat \<Rightarrow> service \<Rightarrow> string \<Rightarrow> (unit completion \<times> service) option"
and transportClose :: "env \<Rightarrow> nat \<Rightarrow> service \<Rightarrow> nat \<Rightarrow> (unit completion \<times> service) option"
where
  "terminateSession e 0 w sid = None"
| "terminateSession e (Suc n) w sid =
     (case map_of (sessions w) sid of
        None \<Rightarrow> Some (Normal (), w)
      | Some session \<Rightarrow>
         (case transportClose e n w (transport session) of
            None \<Rightarrow> None
          | Some (Throw m, w1) \<Rightarrow> Some (Throw m, w1)
          | Some (Normal u, w1) \<Rightarrow>
              Some (Normal (),
                    logger LDebug ''Session cleaned up''
                      (w1\<lparr>sessions := AList.delete sid (sessions w1),
                          totalSessionsTerminated := totalSessionsTerminated w1 + 1\<rparr>))))"
| "transportClose e 0 w t = None"
| "transportClose e (Suc n) w t =
     (let w1 = w\<lparr>trace := trace w @ [TransportClose t]\<rparr> in
      case sdkClose e t of
        CloseReturns \<Rightarrow> Some (Normal (), w1)
      | CloseThrows m \<Rightarrow> Some (Throw m, w1)
      | CloseInvokesOnclose \<Rightarrow>
          (if truthy (map_of (transportIds w1) t)
           then terminateSession e n w1 (the (map_of (transportIds w1) t))
           else Some (Normal (), w1)))"

subsection \<open>The transport factory\<close>

text \<open>
  The callback \<open>onsessioninitialized\<close> that \<open>createNewSession\<close> passes to the transport
  \<open>t\<close>. \<open>sessions.set\<close> keeps the position of a key that is already present.
\<close>

definition onsessioninitialized :: "int \<Rightarrow> nat \<Rightarrow> string \<Rightarrow> service \<Rightarrow> service" where
  "onsessioninitialized now t sid w =
     logger LDebug ''Session initialized and stored''
       (w\<lparr>sessions := AList.update sid
              \<lparr>sessionId = sid, transport = t, createdAt = now, lastActivity = now\<rparr> (sessions w),
          totalSessionsCreated := totalSessionsCreated w + 1\<rparr>)"

text \<open>
  \<open>createNewSession\<close>: the factory may throw, then the transport object is constructed
  (without a session id), then \<open>connect\<close> may throw.
\<close>

definition createNewSession :: "env \<Rightarrow> service \<Rightarrow> nat completion \<times> service" where
  "createNewSession e w =
     (let t = nextTransport w in
      case mcpServerFactory e t of
        Some m \<Rightarrow> (Throw m, w)
      | None \<Rightarrow>
         (let w1 = w\<lparr>nextTransport := t + 1\<rparr> in
          case mcpConnect e t of
            Some m \<Rightarrow> (Throw m, w1)
          | None \<Rightarrow> (Normal t, w1)))"

text \<open>
  A call \<open>transport.handleRequest(req, res)\<close> of transport \<open>t\<close>: the steps the
  collaborator takes, run against the service. \<open>GenerateSession\<close> is the transport
  calling \<open>sessionIdGenerator\<close>, that is \<open>randomUUID\<close>, storing the result as its
  \<open>sessionId\<close> and calling \<open>onsessioninitialized\<close> with it.
\<close>

fun runSteps :: "env \<Rightarrow> nat \<Rightarrow> int \<Rightarrow> nat \<Rightarrow> sdkStep list \<Rightarrow> service \<Rightarrow> response
                 \<Rightarrow> (unit completion \<times> service \<times> response) option" where
  "runSteps e n now t [] w res = Some (Normal (), w, res)"
| "runSteps e n now t (GenerateSession # ss) w res =
     (let sid = randomUUID e (uuidCalls w) in
      runSteps e n now t ss
        (onsessioninitialized now t sid
           (w\<lparr>uuidCalls := uuidCalls w + 1, transportIds := AList.update t sid (transportIds w)\<rparr>))
        res)"
| "runSteps e n now t (WriteResponse code b # ss) w res =
     runSteps e n now t ss w (statusJson res code b)"
| "runSteps e n now t (CloseTransport # ss) w res =
     (case transportClose e n w t of
        None \<Rightarrow> None
      | Some (Throw m, w1) \<Rightarrow> Some (Throw m, w1, res)
      | Some (Normal u, w1) \<Rightarrow> runSteps e n now t ss w1 res)"
| "runSteps e n now t (ThrowError m # ss) w res = Some (Throw m, w, res)"

definition transportHandleRequest :: "env \<Rightarrow> nat \<Rightarrow> int \<Rightarrow> nat \<Rightarrow> request \<Rightarrow> service \<Rightarrow> response
                 \<Rightarrow> (unit completion \<times> service \<times> response) option" where
  "transportHandleRequest e n now t req w res =
     runSteps e n now t (sdkHandleRequest e t req)
       (w\<lparr>trace := trace w @ [TransportHandleRequest t (reqMethod req)]\<rparr>) res"

subsection \<open>The request router\<close>

definition errorBody :: "string \<Rightarrow> json option \<Rightarrow> json" where
  "errorBody msg ctx =
     JObj [(''jsonrpc'', JStr ''2.0''),
           (''error'', JObj ([(''code'', JNum (- 32000)), (''message'', JStr msg)]
                             @ (case ctx of None \<Rightarrow> [] | Some d \<Rightarrow> [(''data'', d)]))),
           (''id'', JNull)]"

text \<open>
  \<open>sendError\<close>. A \<open>context\<close> that is \<open>undefined\<close> leaves no \<open>data\<close> member in the
  serialised body.
\<close>

definition sendError :: "response \<Rightarrow> HttpTransportError \<Rightarrow> response" where
  "sendError res err =
     (if \<not> headersSent res
      then statusJson res (if errStatusCode err = 0 then 500 else errStatusCode err)
             (errorBody (if errMessage err = [] then ''Internal server error'' else errMessage err)
                (errContext err))
      else res)"

definition sessionNotFound :: "string \<Rightarrow> HttpTransportError" where
  "sessionNotFound msg =
     \<lparr>errType = SESSION_NOT_FOUND, errStatusCode = 400, errMessage = msg, errContext = None\<rparr>"

definition internalError :: "string \<Rightarrow> HttpTransportError" where
  "internalError m =
     \<lparr>errType = TRANSPORT_INIT_ERROR, errStatusCode = 500, errMessage = ''Internal server error'',
      errContext = Some (JObj [(''error'', JStr m)])\<rparr>"

text \<open>\<open>this.sessions.has(sessionId)\<close>\<close>

definition has :: "(string \<times> HttpTransportSession) list \<Rightarrow> string \<Rightarrow> bool" where
  "has m k = (map_of m k \<noteq> None)"

text \<open>\<open>session.lastActivity = new Date()\<close> on the object stored under \<open>sid\<close>\<close>

definition touch :: "int \<Rightarrow> string \<Rightarrow> service \<Rightarrow> service" where
  "touch now sid w =
     w\<lparr>sessions := AList.map_entry sid (\<lambda>s. s\<lparr>lastActivity := now\<rparr>) (sessions w)\<rparr>"

text \<open>
  The handlers of the three routes. Each is the body of its \<open>try\<close> block, followed by
  the handler proper, which adds the \<open>catch\<close> block.
\<close>

definition handleMcpPost_try :: "env \<Rightarrow> nat \<Rightarrow> int \<Rightarrow> service \<Rightarrow> request \<Rightarrow> response
                 \<Rightarrow> (unit completion \<times> service \<times> response) option" where
  "handleMcpPost_try e n now w req res =
     (let sid = mcpSessionIdHeader req in
      if truthy sid \<and> has (sessions w) (the sid)
      then (let session = the (map_of (sessions w) (the sid));
                w1 = logger LDebug ''Reusing existing session'' (touch now (the sid) w)
            in transportHandleRequest e n now (transport session) req w1 res)
      else if \<not> truthy sid \<and> isInitializeRequest e (reqBody req)
      then (case createNewSession e w of
              (Throw m, w1) \<Rightarrow> Some (Throw m, w1, res)
            | (Normal t, w1) \<Rightarrow>
                transportHandleRequest e n now t req
                  (logger LDebug ''Created new session for initialization'' w1) res)
      else Some (Normal (), w,
                 sendError res (sessionNotFound ''Bad Request: No valid session ID provided'')))"

definition handleMcpPost :: "env \<Rightarrow> nat \<Rightarrow> int \<Rightarrow> service \<Rightarrow> request \<Rightarrow> response
                 \<Rightarrow> (unit completion \<times> service \<times> response) option" where
  "handleMcpPost e n now w req res =
     (case handleMcpPost_try e n now w req res of
        None \<Rightarrow> None
      | Some (Normal u, w1, res1) \<Rightarrow> Some (Normal (), w1, res1)
      | Some (Throw m, w1, res1) \<Rightarrow>
          Some (Normal (), logger LError ''Error handling MCP POST request'' w1,
                sendError res1 (internalError m)))"

definition handleMcpGet_try :: "env \<Rightarrow> nat \<Rightarrow> int \<Rightarrow> service \<Rightarrow> request \<Rightarrow> response
                 \<Rightarrow> (unit completion \<times> service \<times> response) option" where
  "handleMcpGet_try e n now w req res =
     (let sid = mcpSessionIdHeader req in
      if \<not> truthy sid \<or> \<not> has (sessions w) (the sid)
      then Some (Normal (), w, sendError res (sessionNotFound ''Invalid or missing session ID''))
      else (let session = the (map_of (sessions w) (the sid));
                w1 = touch now (the sid) w
            in case transportHandleRequest e n now (transport session) req w1 res of
                 None \<Rightarrow> None
               | Some (Throw m, w2, res2) \<Rightarrow> Some (Throw m, w2, res2)
               | Some (Normal u, w2, res2) \<Rightarrow>
                   Some (Normal (), logger LDebug ''Handled SSE request'' w2, res2)))"

definition handleMcpGet :: "env \<Rightarrow> nat \<Rightarrow> int \<Rightarrow> service \<Rightarrow> request \<Rightarrow> response
                 \<Rightarrow> (unit completion \<times> service \<times> response) option" where
  "handleMcpGet e n now w req res =
     (case handleMcpGet_try e n now w req res of
        None \<Rightarrow> None
      | Some (Normal u, w1, res1) \<Rightarrow> Some (Normal (), w1, res1)
      | Some (Throw m, w1, res1) \<Rightarrow>
          Some (Normal (), logger LError ''Error handling MCP GET request'' w1,
                sendError res1 (internalError m)))"

definition handleMcpDelete_try :: "env \<Rightarrow> nat \<Rightarrow> int \<Rightarrow> service \<Rightarrow> request \<Rightarrow> response
                 \<Rightarrow> (unit completion \<times> service \<times> response) option" where
  "handleMcpDelete_try e n now w req res =
     (let sid = mcpSessionIdHeader req in
      if \<not> truthy sid \<or> \<not> has (sessions w) (the sid)
      then Some (Normal (), w, sendError res (sessionNotFound ''Invalid or missing session ID''))
      else (let session = the (map_of (sessions w) (the sid))
            in case transportHandleRequest e n now (transport session) req w res of
                 None \<Rightarrow> None
               | Some (Throw m, w2, res2) \<Rightarrow> Some (Throw m, w2, res2)
               | Some (Normal u, w2, res2) \<Rightarrow>
                  (case terminateSession e n w2 (the sid) of
                     None \<Rightarrow> None
                   | Some (Throw m, w3) \<Rightarrow> Some (Throw m, w3, res2)
                   | Some (Normal u, w3) \<Rightarrow>
                       Some (Normal (), logger LInfo ''Session terminated'' w3, res2))))"

definition handleMcpDelete :: "env \<Rightarrow> nat \<Rightarrow> int \<Rightarrow> service \<Rightarrow> request \<Rightarrow> response
                 \<Rightarrow> (unit completion \<times> service \<times> response) option" where
  "handleMcpDelete e n now w req res =
     (case handleMcpDelete_try e n now w req res of
        None \<Rightarrow> None
      | Some (Normal u, w1, res1) \<Rightarrow> Some (Normal (), w1, res1)
      | Some (Throw m, w1, res1) \<Rightarrow>
          Some (Normal (), logger LError ''Error handling MCP DELETE request'' w1,
                sendError res1 (internalError m)))"

subsection \<open>The lifecycle sweeper\<close>

text \<open>
  One tick of the interval callback of \<open>setupSessionCleanup\<close>; the period of the timer
  is not modelled, a tick may come at any time. A comparison with a timeout that is
  \<open>undefined\<close> is false, so nothing expires then.
\<close>

definition expired :: "int \<Rightarrow> int optional \<Rightarrow> HttpTransportSession \<Rightarrow> bool" where
  "expired now timeout s =
     (case timeout of
        Value limit \<Rightarrow> now - lastActivity s > limit
      | Undefined \<Rightarrow> False
      | Absent \<Rightarrow> False)"

definition expiredSessions :: "int \<Rightarrow> int optional \<Rightarrow> (string \<times> HttpTransportSession) list \<Rightarrow> string list" where
  "expiredSessions now timeout m = map fst (filter (\<lambda>(sid, s). expired now timeout s) m)"

fun terminateEach :: "env \<Rightarrow> nat \<Rightarrow> service \<Rightarrow> string list \<Rightarrow> (unit completion \<times> service) option" where
  "terminateEach e n w [] = Some (Normal (), w)"
| "terminateEach e n w (sid # sids) =
     (case terminateSession e n (logger LInfo ''Session expired, cleaning up'' w) sid of
        None \<Rightarrow> None
      | Some (Throw m, w1) \<Rightarrow> Some (Throw m, w1)
      | Some (Normal u, w1) \<Rightarrow> terminateEach e n w1 sids)"

definition cleanupTick :: "env \<Rightarrow> nat \<Rightarrow> int \<Rightarrow> service \<Rightarrow> (unit completion \<times> service) option" where
  "cleanupTick e n now w =
     (let ids = expiredSessions now (sessionTimeout (options w)) (sessions w) in
      case terminateEach e n w ids of
        None \<Rightarrow> None
      | Some (Throw m, w1) \<Rightarrow> Some (Throw m, w1)
      | Some (Normal u, w1) \<Rightarrow>
          Some (Normal (), if ids \<noteq> [] then logger LDebug ''Session cleanup completed'' w1 else w1))"

subsection \<open>Start and stop\<close>

definition startHttpServer :: "env \<Rightarrow> int \<Rightarrow> service \<Rightarrow> unit completion \<times> service" where
  "startHttpServer e now w =
     (let w1 = w\<lparr>server := True,
                 trace := trace w @ [ServerListen (host (config w)) (port (config w))]\<rparr> in
      case listenError e of
        None \<Rightarrow> (Normal (), logger LInfo ''HTTP transport service started''
                               (w1\<lparr>isRunning := True, startTime := now\<rparr>))
      | Some m \<Rightarrow> (Throw m, logger LError ''HTTP server error'' w1))"

text \<open>\<open>fs.accessSync(path, fs.constants.R_OK)\<close>\<close>

definition accessSync :: "env \<Rightarrow> string \<Rightarrow> unit completion" where
  "accessSync e p =
     (case files e p of
        Readable c \<Rightarrow> Normal ()
      | Unreadable \<Rightarrow> Throw (''EACCES: permission denied, access '' @ p)
      | Missing \<Rightarrow> Throw (''ENOENT: no such file or directory, access '' @ p))"

definition validateHttpsConfig :: "env \<Rightarrow> service \<Rightarrow> unit completion" where
  "validateHttpsConfig e w =
     (let c = https (config w) in
      if \<not> truthy (certPath c) \<or> \<not> truthy (keyPath c)
      then Throw ''HTTPS requires both certPath and keyPath''
      else case accessSync e (the (certPath c)) of
        Throw m \<Rightarrow> Throw (''HTTPS certificate files not accessible: '' @ m)
      | Normal u \<Rightarrow>
         (case accessSync e (the (keyPath c)) of
            Throw m \<Rightarrow> Throw (''HTTPS certificate files not accessible: '' @ m)
          | Normal u \<Rightarrow> Normal ()))"

definition startHttpsServer :: "env \<Rightarrow> int \<Rightarrow> service \<Rightarrow> unit completion \<times> service" where
  "startHttpsServer e now w =
     (let c = https (config w) in
      case validateHttpsConfig e w of
        Throw m \<Rightarrow> (Throw m, logger LError ''HTTPS server startup failed'' w)
      | Normal u \<Rightarrow>
         (case readFileSync e (the (certPath c)) of
            Throw m \<Rightarrow> (Throw m, logger LError ''HTTPS server startup failed'' w)
          | Normal cert \<Rightarrow>
             (case readFileSync e (the (keyPath c)) of
                Throw m \<Rightarrow> (Throw m, logger LError ''HTTPS server startup failed'' w)
              | Normal key \<Rightarrow>
                 (let w1 = w\<lparr>server := True,
                             trace := trace w @ [ServerListen (host (config w)) (port (config w))]\<rparr> in
                  case listenError e of
                    None \<Rightarrow> (Normal (), logger LInfo ''HTTPS transport service started''
                                           (w1\<lparr>isRunning := True, startTime := now\<rparr>))
                  | Some m \<Rightarrow> (Throw m, logger LError ''HTTPS server error'' w1)))))"

text \<open>\<open>start\<close>: the promise it returns is fulfilled (\<open>Normal\<close>) or rejected (\<open>Throw\<close>).\<close>

definition start :: "env \<Rightarrow> int \<Rightarrow> service \<Rightarrow> unit completion \<times> service" where
  "start e now w =
     (if isRunning w then (Throw ''HTTP transport service is already running'', w)
      else if httpsEnabled (https (config w)) then startHttpsServer e now w
      else startHttpServer e now w)"

text \<open>
  The loop of \<open>stop\<close> over \<open>this.sessions.entries()\<close>. The iterator of a \<open>Map\<close> skips an
  entry that was deleted before it is reached; a \<open>close\<close> that throws is logged and the
  entry stays.
\<close>

fun closeAllSessions :: "env \<Rightarrow> nat \<Rightarrow> service \<Rightarrow> string list \<Rightarrow> service option" where
  "closeAllSessions e n w [] = Some w"
| "closeAllSessions e n w (sid # sids) =
     (case map_of (sessions w) sid of
        None \<Rightarrow> closeAllSessions e n w sids
      | Some session \<Rightarrow>
         (case transportClose e n w (transport session) of
            None \<Rightarrow> None
          | Some (Throw m, w1) \<Rightarrow>
              closeAllSessions e n (logger LWarn ''Error closing session during shutdown'' w1) sids
          | Some (Normal u, w1) \<Rightarrow>
              closeAllSessions e n
                (w1\<lparr>sessions := AList.delete sid (sessions w1),
                    totalSessionsTerminated := totalSessionsTerminated w1 + 1\<rparr>) sids))"

text \<open>
  \<open>stop\<close>, up to the point where the promise it returns is resolved: by the early
  return, or by the callback of \<open>server.close\<close>.
\<close>

definition stop :: "env \<Rightarrow> nat \<Rightarrow> service \<Rightarrow> service option" where
  "stop e n w =
     (if \<not> server w \<or> \<not> isRunning w
      then Some (logger LWarn ''Attempted to stop HTTP transport service that is not running'' w)
      else (let w1 = (if cleanupInterval w then w\<lparr>cleanupInterval := False\<rparr> else w) in
            case closeAllSessions e n w1 (map fst (sessions w1)) of
              None \<Rightarrow> None
            | Some w2 \<Rightarrow>
                Some (logger LInfo ''HTTP transport service stopped''
                        (w2\<lparr>trace := trace w2 @ [ServerClose], isRunning := False\<rparr>))))"

subsection \<open>Concrete configurations, collaborators and requests\<close>

definition localConfig :: HttpServerConfig where
  "localConfig =
     \<lparr>enabled = True, port = 3000, host = ''localhost'',
      https = \<lparr>httpsEnabled = False, certPath = None, keyPath = None\<rparr>,
      security = \<lparr>allowedHosts = [''localhost''], allowedOrigins = []\<rparr>\<rparr>"

definition tlsConfig :: HttpServerConfig where
  "tlsConfig = localConfig\<lparr>https :=
     \<lparr>httpsEnabled = True, certPath = Some ''/etc/tls/cert.pem'', keyPath = Some ''/etc/tls/key.pem''\<rparr>\<rparr>"

definition noOptions :: HttpServerOptions where
  "noOptions = \<lparr>jsonLimit = Absent, enableLogging = Absent, sessionTimeout = Absent\<rparr>"

definition initializeBody :: json where
  "initializeBody = JObj [(''jsonrpc'', JStr ''2.0''), (''id'', JNum 1), (''method'', JStr ''initialize'')]"

definition toolsBody :: json where
  "toolsBody = JObj [(''jsonrpc'', JStr ''2.0''), (''id'', JNum 2), (''method'', JStr ''tools/list'')]"

text \<open>
  A transport that answers an initialization by generating a session and every request
  with status 200, and whose \<open>close\<close> returns without calling back.
\<close>

definition quietEnv :: env where
  "quietEnv =
     \<lparr>isInitializeRequest = (\<lambda>b. b = initializeBody),
      randomUUID = (\<lambda>k. ''uuid-'' @ replicate k CHR ''x''),
      mcpServerFactory = (\<lambda>t. None),
      mcpConnect = (\<lambda>t. None),
      sdkHandleRequest = (\<lambda>t req.
         if reqMethod req = POST \<and> reqBody req = initializeBody
         then [GenerateSession, WriteResponse 200 (JObj [(''result'', JStr ''initialized'')])]
         else [WriteResponse 200 (JObj [(''result'', JStr ''ok'')])]),
      sdkClose = (\<lambda>t. CloseReturns),
      files = (\<lambda>p. Missing),
      listenError = None\<rparr>"

text \<open>The same transport, except that \<open>close\<close> invokes the \<open>onclose\<close> hook.\<close>

definition hookEnv :: env where
  "hookEnv = quietEnv\<lparr>sdkClose := (\<lambda>t. CloseInvokesOnclose)\<rparr>"

text \<open>A transport whose \<open>handleRequest\<close> throws, and a factory that throws.\<close>

definition throwingEnv :: env where
  "throwingEnv = quietEnv\<lparr>sdkHandleRequest := (\<lambda>t req. [ThrowError ''stream destroyed''])\<rparr>"

definition noFactoryEnv :: env where
  "noFactoryEnv = quietEnv\<lparr>mcpServerFactory := (\<lambda>t. Some ''factory failed'')\<rparr>"

text \<open>A transport whose \<open>handleRequest\<close> throws on a DELETE and answers everything else.\<close>

definition failingDeleteEnv :: env where
  "failingDeleteEnv =
     quietEnv\<lparr>sdkHandleRequest := (\<lambda>t req.
        if reqMethod req = DELETE then [ThrowError ''stream destroyed'']
        else [WriteResponse 200 (JObj [(''result'', JStr ''ok'')])])\<rparr>"

text \<open>A generator that returns the same id every time.\<close>

definition repeatingEnv :: env where
  "repeatingEnv = quietEnv\<lparr>randomUUID := (\<lambda>k. ''uuid-'')\<rparr>"

text \<open>The service right after construction with \<open>localConfig\<close>, with an empty trace.\<close>

definition idleService :: service where
  "idleService =
     \<lparr>sessions = [], config = localConfig, options = mergeOptions noOptions,
      totalSessionsCreated = 0, totalSessionsTerminated = 0,
      isRunning = False, server = False, cleanupInterval = True,
      startTime = 0, transportIds = [], nextTransport = 0, uuidCalls = 0, trace = []\<rparr>"

text \<open>A running service with one session \<open>uuid-\<close> on transport 0, last active at time 0.\<close>

definition oneSession :: service where
  "oneSession =
     idleService\<lparr>sessions := [(''uuid-'',
                      \<lparr>sessionId = ''uuid-'', transport = 0, createdAt = 0, lastActivity = 0\<rparr>)],
                 totalSessionsCreated := 1, isRunning := True, server := True,
                 transportIds := [(0, ''uuid-'')], nextTransport := 1, uuidCalls := 1\<rparr>"

definition mkRequest :: "httpMethod \<Rightarrow> string option \<Rightarrow> json \<Rightarrow> request" where
  "mkRequest m sid b =
     \<lparr>reqMethod = m, hostHeader = Some ''localhost:3000'', mcpSessionIdHeader = sid, reqBody = b\<rparr>"

text \<open>The service and the response a handler leaves behind.\<close>

definition serviceAfter :: "('c \<times> service \<times> response) option \<Rightarrow> service option" where
  "serviceAfter r = map_option (fst \<circ> snd) r"

definition responseAfter :: "('c \<times> service \<times> response) option \<Rightarrow> response option" where
  "responseAfter r = map_option (snd \<circ> snd) r"

definition sessionIds :: "service \<Rightarrow> string list" where
  "sessionIds w = map fst (sessions w)"

definition lastActivities :: "service \<Rightarrow> (string \<times> int) list" where
  "lastActivities w = map (\<lambda>(sid, s). (sid, lastActivity s)) (sessions w)"



text \<open>The entries of the trace that are calls of \<open>transport.close()\<close>.\<close>

definition isClose :: "event \<Rightarrow> bool" where
  "isClose ev = (case ev of TransportClose t \<Rightarrow> True | _ \<Rightarrow> False)"

section \<open>Properties\<close>

subsection \<open>Start\<close>

text \<open>
  Claim C10. Calling \<open>start\<close> while \<open>isRunning\<close> is true rejects with the error
  "HTTP transport service is already running"; no listening socket is requested (the
  trace gets no \<open>ServerListen\<close> entry) and no field of the service changes.
\<close>

theorem start_rejects_when_running:
  "isRunning w \<Longrightarrow> start e now w = (Throw ''HTTP transport service is already running'', w)"
  by (simp add: start_def)

theorem start_rejects_when_running_witness:
  "isRunning oneSession \<and>
   start quietEnv 5 oneSession = (Throw ''HTTP transport service is already running'', oneSession)"
  using start_rejects_when_running [of oneSession quietEnv 5]
  by (simp add: oneSession_def)

subsection \<open>Fields that logging leaves alone\<close>

lemma logger_fields [simp]:
  "server (logger l m w) = server w"
  "isRunning (logger l m w) = isRunning w"
  "sessions (logger l m w) = sessions w"
  "trace (logger l m w) = trace w @ [Log l m]"
  "totalSessionsCreated (logger l m w) = totalSessionsCreated w"
  "totalSessionsTerminated (logger l m w) = totalSessionsTerminated w"
  "transportIds (logger l m w) = transportIds w"
  "uuidCalls (logger l m w) = uuidCalls w"
  "nextTransport (logger l m w) = nextTransport w"
  "options (logger l m w) = options w"
  "config (logger l m w) = config w"
  by (simp_all add: logger_def)

subsection \<open>Requests the router cannot route\<close>

lemma post_unroutable:
  assumes "\<not> headersSent res"
    and "(truthy (mcpSessionIdHeader req) \<and> \<not> has (sessions w) (the (mcpSessionIdHeader req)))
         \<or> (\<not> truthy (mcpSessionIdHeader req) \<and> \<not> isInitializeRequest e (reqBody req))"
  shows "handleMcpPost e n now w req res =
           Some (Normal (), w,
                 statusJson res 400 (errorBody ''Bad Request: No valid session ID provided'' None))"
  using assms
  by (auto simp: handleMcpPost_def handleMcpPost_try_def sendError_def sessionNotFound_def Let_def)

text \<open>
  Claim C1, as the code has it. A POST whose \<open>mcp-session-id\<close> header is a non-empty
  string that is not a key of the registry, and a POST whose header is absent or empty
  and whose body is not an initialization request, are answered with status 400 and the
  JSON-RPC error body; the service, and with it the registry and both counters, is
  exactly what it was.
\<close>

theorem post_unroutable_rejected:
  assumes "\<not> headersSent res"
    and "(\<exists>sid. mcpSessionIdHeader req = Some sid \<and> sid \<noteq> [] \<and> \<not> has (sessions w) sid)
         \<or> ((mcpSessionIdHeader req = None \<or> mcpSessionIdHeader req = Some [])
              \<and> \<not> isInitializeRequest e (reqBody req))"
  shows "handleMcpPost e n now w req res =
           Some (Normal (), w,
                 statusJson res 400
                   (JObj [(''jsonrpc'', JStr ''2.0''),
                          (''error'', JObj [(''code'', JNum (- 32000)),
                                            (''message'', JStr ''Bad Request: No valid session ID provided'')]),
                          (''id'', JNull)]))"
proof -
  from assms(2) have "(truthy (mcpSessionIdHeader req) \<and> \<not> has (sessions w) (the (mcpSessionIdHeader req)))
         \<or> (\<not> truthy (mcpSessionIdHeader req) \<and> \<not> isInitializeRequest e (reqBody req))"
    by auto
  with assms(1) show ?thesis
    by (simp add: post_unroutable errorBody_def)
qed

theorem post_unroutable_rejected_witness:
  "\<not> headersSent newResponse
   \<and> mcpSessionIdHeader (mkRequest POST (Some ''unknown-id'') toolsBody) = Some ''unknown-id''
   \<and> \<not> has (sessions oneSession) ''unknown-id''
   \<and> mcpSessionIdHeader (mkRequest POST None toolsBody) = None
   \<and> \<not> isInitializeRequest quietEnv (reqBody (mkRequest POST None toolsBody))
   \<and> handleMcpPost quietEnv 0 7 oneSession (mkRequest POST (Some ''unknown-id'') toolsBody) newResponse =
       Some (Normal (), oneSession,
             statusJson newResponse 400
               (JObj [(''jsonrpc'', JStr ''2.0''),
                      (''error'', JObj [(''code'', JNum (- 32000)),
                                        (''message'', JStr ''Bad Request: No valid session ID provided'')]),
                      (''id'', JNull)]))
   \<and> handleMcpPost quietEnv 0 7 oneSession (mkRequest POST None toolsBody) newResponse =
       Some (Normal (), oneSession,
             statusJson newResponse 400
               (JObj [(''jsonrpc'', JStr ''2.0''),
                      (''error'', JObj [(''code'', JNum (- 32000)),
                                        (''message'', JStr ''Bad Request: No valid session ID provided'')]),
                      (''id'', JNull)]))"
  using post_unroutable_rejected
          [of newResponse "mkRequest POST (Some ''unknown-id'') toolsBody" oneSession quietEnv 0 7]
        post_unroutable_rejected
          [of newResponse "mkRequest POST None toolsBody" oneSession quietEnv 0 7]
  by (simp add: newResponse_def mkRequest_def oneSession_def idleService_def has_def quietEnv_def
        toolsBody_def initializeBody_def)

text \<open>
  The claim as it is written fails for a header that is present and empty: the empty
  string resolves to no session, yet with an initialization body the router creates a
  session and hands the request to the new transport.
\<close>

theorem post_empty_header_counterexample:
  "mcpSessionIdHeader (mkRequest POST (Some []) initializeBody) = Some []
   \<and> \<not> has (sessions idleService) []
   \<and> map_option statusCode
       (responseAfter (handleMcpPost quietEnv 1 7 idleService
                         (mkRequest POST (Some []) initializeBody) newResponse)) = Some 200
   \<and> map_option sessionIds
       (serviceAfter (handleMcpPost quietEnv 1 7 idleService
                        (mkRequest POST (Some []) initializeBody) newResponse)) = Some [''uuid-'']
   \<and> map_option totalSessionsCreated
       (serviceAfter (handleMcpPost quietEnv 1 7 idleService
                        (mkRequest POST (Some []) initializeBody) newResponse)) = Some 1"
  by (simp add: handleMcpPost_def handleMcpPost_try_def createNewSession_def
        transportHandleRequest_def onsessioninitialized_def statusJson_def
        mkRequest_def idleService_def has_def quietEnv_def newResponse_def
        responseAfter_def serviceAfter_def sessionIds_def Let_def)

subsection \<open>The security middleware\<close>

text \<open>
  What the middleware does. A request whose Host header is absent or empty is answered
  with status 400; a request whose hostname (the part of the Host header before the
  first colon) is not empty, is not in \<open>allowedHosts\<close>, while \<open>*\<close> is not in
  \<open>allowedHosts\<close> either, is answered with status 403 and the body
  \<open>{error: Forbidden, message: Host not allowed}\<close>. In both cases the handler behind the
  middleware does not run, whatever it is, and the service is unchanged but for the
  warning in the log. A request whose hostname is in \<open>allowedHosts\<close>, or any request
  with a Host header when \<open>*\<close> is, reaches the handler as it came.
\<close>

theorem dns_rebinding_protection:
  "(\<not> truthy (hostHeader req) \<longrightarrow>
      withDnsRebindingProtection next w req res =
        Some (Normal (), w\<lparr>trace := trace w @ [Log LWarn ''Request rejected: Missing Host header'']\<rparr>,
              statusJson res 400
                (JObj [(''error'', JStr ''Bad Request''), (''message'', JStr ''Host header is required'')])))
   \<and> (truthy (hostHeader req) \<and> hostnameOf (the (hostHeader req)) \<noteq> []
        \<and> hostnameOf (the (hostHeader req)) \<notin> set (allowedHosts (security (config w)))
        \<and> ''*'' \<notin> set (allowedHosts (security (config w))) \<longrightarrow>
      withDnsRebindingProtection next w req res =
        Some (Normal (), w\<lparr>trace := trace w @ [Log LWarn ''Request rejected: Invalid host'']\<rparr>,
              statusJson res 403
                (JObj [(''error'', JStr ''Forbidden''), (''message'', JStr ''Host not allowed'')])))
   \<and> (truthy (hostHeader req)
        \<and> (hostnameOf (the (hostHeader req)) \<in> set (allowedHosts (security (config w)))
             \<or> ''*'' \<in> set (allowedHosts (security (config w)))) \<longrightarrow>
      withDnsRebindingProtection next w req res = next w req res)"
  by (auto simp: withDnsRebindingProtection_def createDnsRebindingProtection_def Let_def)

theorem dns_rebinding_protection_witness:
  "\<not> truthy (hostHeader ((mkRequest POST None initializeBody)\<lparr>hostHeader := None\<rparr>))
   \<and> withDnsRebindingProtection (handleMcpPost quietEnv 1 7) idleService
        ((mkRequest POST None initializeBody)\<lparr>hostHeader := None\<rparr>) newResponse =
       Some (Normal (), idleService\<lparr>trace := [Log LWarn ''Request rejected: Missing Host header'']\<rparr>,
             statusJson newResponse 400
               (JObj [(''error'', JStr ''Bad Request''), (''message'', JStr ''Host header is required'')]))
   \<and> hostnameOf ''evil.example'' = ''evil.example''
   \<and> ''evil.example'' \<notin> set (allowedHosts (security (config idleService)))
   \<and> ''*'' \<notin> set (allowedHosts (security (config idleService)))
   \<and> withDnsRebindingProtection (handleMcpPost quietEnv 1 7) idleService
        ((mkRequest POST None initializeBody)\<lparr>hostHeader := Some ''evil.example''\<rparr>) newResponse =
       Some (Normal (), idleService\<lparr>trace := [Log LWarn ''Request rejected: Invalid host'']\<rparr>,
             statusJson newResponse 403
               (JObj [(''error'', JStr ''Forbidden''), (''message'', JStr ''Host not allowed'')]))
   \<and> hostnameOf ''localhost:3000'' \<in> set (allowedHosts (security (config idleService)))
   \<and> withDnsRebindingProtection (handleMcpPost quietEnv 1 7) idleService
        (mkRequest POST None initializeBody) newResponse =
       handleMcpPost quietEnv 1 7 idleService (mkRequest POST None initializeBody) newResponse"
  using dns_rebinding_protection
          [of "(mkRequest POST None initializeBody)\<lparr>hostHeader := None\<rparr>"
              "handleMcpPost quietEnv 1 7" idleService newResponse]
        dns_rebinding_protection
          [of "(mkRequest POST None initializeBody)\<lparr>hostHeader := Some ''evil.example''\<rparr>"
              "handleMcpPost quietEnv 1 7" idleService newResponse]
        dns_rebinding_protection
          [of "mkRequest POST None initializeBody"
              "handleMcpPost quietEnv 1 7" idleService newResponse]
  by (simp add: mkRequest_def idleService_def localConfig_def hostnameOf_def)

text \<open>
  Claim C2 at a Host header that starts with a colon. The allow-list is \<open>localhost\<close>
  alone. The hostname of \<open>:evil.example\<close>, the part before the first colon, is the
  empty string; it is not in the list and \<open>*\<close> is not either, so the claim has the
  request answered with status 403. The test of the middleware is guarded by
  \<open>hostname &&\<close>, so its 403 branch is skipped and \<open>next\<close> is called: the POST behind
  it is handled, answered with status 200, and a session is created. The Host header
  \<open>evil.example\<close> is answered with status 403 and reaches no handler.
\<close>

theorem dns_rebinding_empty_hostname_passes:
  "hostnameOf '':evil.example'' = []
   \<and> hostnameOf '':evil.example'' \<notin> set (allowedHosts (security (config idleService)))
   \<and> ''*'' \<notin> set (allowedHosts (security (config idleService)))
   \<and> createDnsRebindingProtection (allowedHosts (security (config idleService)))
        ((mkRequest POST None initializeBody)\<lparr>hostHeader := Some '':evil.example''\<rparr>) newResponse = Next
   \<and> map_option statusCode
        (responseAfter (withDnsRebindingProtection (handleMcpPost quietEnv 1 7) idleService
           ((mkRequest POST None initializeBody)\<lparr>hostHeader := Some '':evil.example''\<rparr>) newResponse)) =
        Some 200
   \<and> map_option sessionIds
        (serviceAfter (withDnsRebindingProtection (handleMcpPost quietEnv 1 7) idleService
           ((mkRequest POST None initializeBody)\<lparr>hostHeader := Some '':evil.example''\<rparr>) newResponse)) =
        Some [''uuid-'']
   \<and> map_option statusCode
        (responseAfter (withDnsRebindingProtection (handleMcpPost quietEnv 1 7) idleService
           ((mkRequest POST None initializeBody)\<lparr>hostHeader := Some ''evil.example''\<rparr>) newResponse)) =
        Some 403
   \<and> map_option sessionIds
        (serviceAfter (withDnsRebindingProtection (handleMcpPost quietEnv 1 7) idleService
           ((mkRequest POST None initializeBody)\<lparr>hostHeader := Some ''evil.example''\<rparr>) newResponse)) =
        Some []"
  by (simp add: withDnsRebindingProtection_def createDnsRebindingProtection_def hostnameOf_def
        handleMcpPost_def handleMcpPost_try_def createNewSession_def
        transportHandleRequest_def onsessioninitialized_def statusJson_def
        mkRequest_def idleService_def localConfig_def has_def quietEnv_def newResponse_def
        responseAfter_def serviceAfter_def sessionIds_def logger_def Let_def)

subsection \<open>Certificate material\<close>

text \<open>
  Claim C6. With HTTPS enabled, when the certificate path or the key path is missing, or
  one of the two files does not exist or cannot be read, or the certificate lacks
  \<open>-----BEGIN CERTIFICATE-----\<close>, or the key lacks \<open>-----BEGIN\<close> or
  \<open>PRIVATE KEY-----\<close>, the constructor throws: no service comes into being, and nothing
  has asked for a listening socket by then.
\<close>

theorem https_material_checked_at_construction:
  assumes "httpsEnabled (https cfg)"
    and "certPath (https cfg) = None \<or> keyPath (https cfg) = None
         \<or> (\<exists>cp kp. certPath (https cfg) = Some cp \<and> keyPath (https cfg) = Some kp
              \<and> (files e cp = Missing \<or> files e kp = Missing
                   \<or> files e cp = Unreadable \<or> files e kp = Unreadable
                   \<or> (\<exists>cert. files e cp = Readable cert
                          \<and> \<not> str_includes cert ''-----BEGIN CERTIFICATE-----'')
                   \<or> (\<exists>key. files e kp = Readable key
                          \<and> (\<not> str_includes key ''-----BEGIN''
                               \<or> \<not> str_includes key ''PRIVATE KEY-----''))))"
  shows "\<exists>m evs. newService e now cfg opts = (Throw m, evs) \<and> (\<forall>h p. ServerListen h p \<notin> set evs)"
  using assms
  by (auto simp: newService_def validateConfig_def validateHttpsCertificates_def
        validateHttpsCertificates_try_def existsSync_def readFileSync_def pathStr_def Let_def
        split: fileState.splits completion.splits)

theorem https_material_checked_at_construction_witness:
  "httpsEnabled (https tlsConfig)
   \<and> certPath (https tlsConfig) = Some ''/etc/tls/cert.pem''
   \<and> keyPath (https tlsConfig) = Some ''/etc/tls/key.pem''
   \<and> files quietEnv ''/etc/tls/cert.pem'' = Missing
   \<and> (\<exists>m evs. newService quietEnv 0 tlsConfig noOptions = (Throw m, evs)
                \<and> (\<forall>h p. ServerListen h p \<notin> set evs))"
  using https_material_checked_at_construction [of tlsConfig quietEnv 0 noOptions]
  by (simp add: tlsConfig_def quietEnv_def)

subsection \<open>Exceptions inside a handler\<close>

lemma sendError_internal:
  "sendError res1 (internalError m) =
     (if headersSent res1 then res1
      else statusJson res1 500
             (JObj [(''jsonrpc'', JStr ''2.0''),
                    (''error'', JObj [(''code'', JNum (- 32000)),
                                      (''message'', JStr ''Internal server error''),
                                      (''data'', JObj [(''error'', JStr m)])]),
                    (''id'', JNull)]))"
  by (simp add: sendError_def internalError_def errorBody_def)

text \<open>
  Claim C7. Whenever the body of the \<open>try\<close> block of the POST, GET or DELETE handler
  throws, the handler itself completes normally: it logs the error and, unless the
  response headers were already sent, answers with status 500 and the body
  \<open>{jsonrpc: "2.0", error: {code: -32000, message, data: {error}}, id: null}\<close>.
  No handler ever completes by throwing.
\<close>

theorem internal_exceptions_caught:
  "(handleMcpPost_try e n now w req res = Some (Throw m, w1, res1) \<longrightarrow>
      handleMcpPost e n now w req res =
        Some (Normal (), logger LError ''Error handling MCP POST request'' w1,
              if headersSent res1 then res1
              else statusJson res1 500
                     (JObj [(''jsonrpc'', JStr ''2.0''),
                            (''error'', JObj [(''code'', JNum (- 32000)),
                                              (''message'', JStr ''Internal server error''),
                                              (''data'', JObj [(''error'', JStr m)])]),
                            (''id'', JNull)])))
   \<and> (handleMcpGet_try e n now w req res = Some (Throw m, w1, res1) \<longrightarrow>
      handleMcpGet e n now w req res =
        Some (Normal (), logger LError ''Error handling MCP GET request'' w1,
              if headersSent res1 then res1
              else statusJson res1 500
                     (JObj [(''jsonrpc'', JStr ''2.0''),
                            (''error'', JObj [(''code'', JNum (- 32000)),
                                              (''message'', JStr ''Internal server error''),
                                              (''data'', JObj [(''error'', JStr m)])]),
                            (''id'', JNull)])))
   \<and> (handleMcpDelete_try e n now w req res = Some (Throw m, w1, res1) \<longrightarrow>
      handleMcpDelete e n now w req res =
        Some (Normal (), logger LError ''Error handling MCP DELETE request'' w1,
              if headersSent res1 then res1
              else statusJson res1 500
                     (JObj [(''jsonrpc'', JStr ''2.0''),
                            (''error'', JObj [(''code'', JNum (- 32000)),
                                              (''message'', JStr ''Internal server error''),
                                              (''data'', JObj [(''error'', JStr m)])]),
                            (''id'', JNull)])))
   \<and> handleMcpPost e n now w req res \<noteq> Some (Throw m, w1, res1)
   \<and> handleMcpGet e n now w req res \<noteq> Some (Throw m, w1, res1)
   \<and> handleMcpDelete e n now w req res \<noteq> Some (Throw m, w1, res1)"
proof -
  have post: "handleMcpPost e n now w req res \<noteq> Some (Throw m, w1, res1)"
    by (simp add: handleMcpPost_def split: option.splits completion.splits prod.splits)
  have get: "handleMcpGet e n now w req res \<noteq> Some (Throw m, w1, res1)"
    by (simp add: handleMcpGet_def split: option.splits completion.splits prod.splits)
  have del: "handleMcpDelete e n now w req res \<noteq> Some (Throw m, w1, res1)"
    by (simp add: handleMcpDelete_def split: option.splits completion.splits prod.splits)
  show ?thesis
    using post get del
    by (simp add: handleMcpPost_def handleMcpGet_def handleMcpDelete_def sendError_internal)
qed

theorem internal_exceptions_caught_witness:
  "handleMcpPost_try noFactoryEnv 1 7 idleService (mkRequest POST None initializeBody) newResponse =
     Some (Throw ''factory failed'', idleService, newResponse)
   \<and> handleMcpPost noFactoryEnv 1 7 idleService (mkRequest POST None initializeBody) newResponse =
       Some (Normal (), logger LError ''Error handling MCP POST request'' idleService,
             statusJson newResponse 500
               (JObj [(''jsonrpc'', JStr ''2.0''),
                      (''error'', JObj [(''code'', JNum (- 32000)),
                                        (''message'', JStr ''Internal server error''),
                                        (''data'', JObj [(''error'', JStr ''factory failed'')])]),
                      (''id'', JNull)]))
   \<and> handleMcpGet_try throwingEnv 1 7 oneSession (mkRequest GET (Some ''uuid-'') JNull) newResponse =
       Some (Throw ''stream destroyed'',
             (touch 7 ''uuid-'' oneSession)\<lparr>trace := [TransportHandleRequest 0 GET]\<rparr>, newResponse)
   \<and> handleMcpGet throwingEnv 1 7 oneSession (mkRequest GET (Some ''uuid-'') JNull) newResponse =
       Some (Normal (),
             logger LError ''Error handling MCP GET request''
               ((touch 7 ''uuid-'' oneSession)\<lparr>trace := [TransportHandleRequest 0 GET]\<rparr>),
             statusJson newResponse 500
               (JObj [(''jsonrpc'', JStr ''2.0''),
                      (''error'', JObj [(''code'', JNum (- 32000)),
                                        (''message'', JStr ''Internal server error''),
                                        (''data'', JObj [(''error'', JStr ''stream destroyed'')])]),
                      (''id'', JNull)]))
   \<and> handleMcpDelete_try throwingEnv 1 7 oneSession (mkRequest DELETE (Some ''uuid-'') JNull) newResponse =
       Some (Throw ''stream destroyed'',
             oneSession\<lparr>trace := [TransportHandleRequest 0 DELETE]\<rparr>, newResponse)
   \<and> handleMcpDelete throwingEnv 1 7 oneSession (mkRequest DELETE (Some ''uuid-'') JNull) newResponse =
       Some (Normal (),
             logger LError ''Error handling MCP DELETE request''
               (oneSession\<lparr>trace := [TransportHandleRequest 0 DELETE]\<rparr>),
             statusJson newResponse 500
               (JObj [(''jsonrpc'', JStr ''2.0''),
                      (''error'', JObj [(''code'', JNum (- 32000)),
                                        (''message'', JStr ''Internal server error''),
                                        (''data'', JObj [(''error'', JStr ''stream destroyed'')])]),
                      (''id'', JNull)]))"
proof -
  have p: "handleMcpPost_try noFactoryEnv 1 7 idleService (mkRequest POST None initializeBody) newResponse =
     Some (Throw ''factory failed'', idleService, newResponse)"
    by (simp add: handleMcpPost_try_def createNewSession_def mkRequest_def idleService_def
          has_def noFactoryEnv_def quietEnv_def Let_def)
  have g: "handleMcpGet_try throwingEnv 1 7 oneSession (mkRequest GET (Some ''uuid-'') JNull) newResponse =
       Some (Throw ''stream destroyed'',
             (touch 7 ''uuid-'' oneSession)\<lparr>trace := [TransportHandleRequest 0 GET]\<rparr>, newResponse)"
    by (simp add: handleMcpGet_try_def transportHandleRequest_def touch_def mkRequest_def
          oneSession_def idleService_def has_def throwingEnv_def quietEnv_def Let_def)
  have d: "handleMcpDelete_try throwingEnv 1 7 oneSession (mkRequest DELETE (Some ''uuid-'') JNull) newResponse =
       Some (Throw ''stream destroyed'',
             oneSession\<lparr>trace := [TransportHandleRequest 0 DELETE]\<rparr>, newResponse)"
    by (simp add: handleMcpDelete_try_def transportHandleRequest_def mkRequest_def
          oneSession_def idleService_def has_def throwingEnv_def quietEnv_def Let_def)
  show ?thesis
    using p g d
      internal_exceptions_caught
        [of noFactoryEnv 1 7 idleService "mkRequest POST None initializeBody" newResponse
            "''factory failed''" idleService newResponse]
      internal_exceptions_caught
        [of throwingEnv 1 7 oneSession "mkRequest GET (Some ''uuid-'') JNull" newResponse
            "''stream destroyed''"
            "(touch 7 ''uuid-'' oneSession)\<lparr>trace := [TransportHandleRequest 0 GET]\<rparr>" newResponse]
      internal_exceptions_caught
        [of throwingEnv 1 7 oneSession "mkRequest DELETE (Some ''uuid-'') JNull" newResponse
            "''stream destroyed''"
            "oneSession\<lparr>trace := [TransportHandleRequest 0 DELETE]\<rparr>" newResponse]
    by (simp add: newResponse_def)
qed

subsection \<open>Stop\<close>

text \<open>
  Claim C5. When a call of \<open>stop\<close> has resolved, a second call resolves as well: it only
  logs the warning, so it closes no transport and changes no field of the service. And a
  call of \<open>stop\<close> on a service that has no server or is not running logs the warning and
  resolves at once.
\<close>

theorem stop_idempotent:
  "(stop e n w = Some w1 \<longrightarrow>
      stop e n' w1 =
        Some (logger LWarn ''Attempted to stop HTTP transport service that is not running'' w1))
   \<and> (\<not> server w \<or> \<not> isRunning w \<longrightarrow>
      stop e n w =
        Some (logger LWarn ''Attempted to stop HTTP transport service that is not running'' w))"
  by (auto simp: stop_def Let_def split: option.splits if_splits)

theorem stop_idempotent_witness:
  "stop quietEnv 2 oneSession =
     Some (oneSession\<lparr>sessions := [], totalSessionsTerminated := 1, isRunning := False,
                      cleanupInterval := False,
                      trace := [TransportClose 0, ServerClose,
                                Log LInfo ''HTTP transport service stopped'']\<rparr>)
   \<and> stop quietEnv 0
        (oneSession\<lparr>sessions := [], totalSessionsTerminated := 1, isRunning := False,
                     cleanupInterval := False,
                     trace := [TransportClose 0, ServerClose,
                               Log LInfo ''HTTP transport service stopped'']\<rparr>) =
       Some (oneSession\<lparr>sessions := [], totalSessionsTerminated := 1, isRunning := False,
                        cleanupInterval := False,
                        trace := [TransportClose 0, ServerClose,
                                  Log LInfo ''HTTP transport service stopped'',
                                  Log LWarn ''Attempted to stop HTTP transport service that is not running'']\<rparr>)
   \<and> \<not> server idleService
   \<and> stop quietEnv 0 idleService =
       Some (idleService\<lparr>trace :=
               [Log LWarn ''Attempted to stop HTTP transport service that is not running'']\<rparr>)"
proof -
  let ?w1 = "oneSession\<lparr>sessions := [], totalSessionsTerminated := 1, isRunning := False,
                      cleanupInterval := False,
                      trace := [TransportClose 0, ServerClose,
                                Log LInfo ''HTTP transport service stopped'']\<rparr>"
  have first: "stop quietEnv 2 oneSession = Some ?w1"
    by (simp add: stop_def oneSession_def idleService_def quietEnv_def logger_def
          numeral_2_eq_2 Let_def)
  show ?thesis
    using first stop_idempotent [of quietEnv 2 oneSession ?w1 0]
      stop_idempotent [of quietEnv 0 idleService ?w1 0]
    by (simp add: logger_def oneSession_def idleService_def)
qed

subsection \<open>Keys of the registry\<close>

text \<open>
  No operation adds a key to the registry unless a transport runs the
  session-initialized callback: termination, a transport's \<open>close\<close>, the sweep and the
  shutdown only remove keys, and a \<open>handleRequest\<close> without a \<open>GenerateSession\<close> step
  adds none.
\<close>

lemma sessionIds_simps [simp]:
  "sessionIds (logger l m w) = sessionIds w"
  "sessionIds (w\<lparr>trace := tr\<rparr>) = sessionIds w"
  "sessionIds (w\<lparr>totalSessionsTerminated := k\<rparr>) = sessionIds w"
  "set (sessionIds (w\<lparr>sessions := AList.delete sid (sessions w)\<rparr>)) = set (sessionIds w) - {sid}"
  by (simp_all add: sessionIds_def delete_keys)

lemma terminate_close_keys:
  "(terminateSession e n w sid = Some (c, w') \<longrightarrow>
      set (sessionIds w') \<subseteq> set (sessionIds w) \<and> uuidCalls w' = uuidCalls w)
   \<and> (transportClose e n w t = Some (c, w') \<longrightarrow>
      set (sessionIds w') \<subseteq> set (sessionIds w) \<and> uuidCalls w' = uuidCalls w)"
proof (induction n arbitrary: w sid t c w')
  case 0
  show ?case by simp
next
  case (Suc n)
  have hc: "transportClose e (Suc n) w t = Some (c, w') \<longrightarrow>
      set (sessionIds w') \<subseteq> set (sessionIds w) \<and> uuidCalls w' = uuidCalls w"
    using Suc [where w = "w\<lparr>trace := trace w @ [TransportClose t]\<rparr>"
                   and sid = "the (map_of (transportIds w) t)" and c = c and w' = w']
    by (auto simp: Let_def split: closeBehaviour.splits if_splits)
  have ht: "terminateSession e (Suc n) w sid = Some (c, w') \<longrightarrow>
      set (sessionIds w') \<subseteq> set (sessionIds w) \<and> uuidCalls w' = uuidCalls w"
  proof (cases "map_of (sessions w) sid")
    case None
    then show ?thesis by auto
  next
    case (Some s)
    show ?thesis
    proof (cases "transportClose e n w (transport s)")
      case None
      with Some show ?thesis by simp
    next
      case (Some r)
      obtain c1 w1 where r: "r = (c1, w1)" by (cases r)
      from Suc [where w = w and t = "transport s" and c = c1 and w' = w1] Some r
      have "set (sessionIds w1) \<subseteq> set (sessionIds w) \<and> uuidCalls w1 = uuidCalls w" by simp
      with \<open>map_of (sessions w) sid = Some s\<close> Some r show ?thesis
        by (cases c1) auto
    qed
  qed
  from hc ht show ?case by simp
qed


lemma terminateSession_keys:
  "terminateSession e n w sid = Some (c, w') \<Longrightarrow> set (sessionIds w') \<subseteq> set (sessionIds w)"
  using terminate_close_keys by blast

lemma transportClose_keys:
  "transportClose e n w t = Some (c, w') \<Longrightarrow> set (sessionIds w') \<subseteq> set (sessionIds w)"
  using terminate_close_keys by blast

lemma runSteps_keys:
  "GenerateSession \<notin> set ss \<Longrightarrow> runSteps e n now t ss w res = Some (c, w', res')
   \<Longrightarrow> set (sessionIds w') \<subseteq> set (sessionIds w)"
proof (induction ss arbitrary: w res)
  case Nil
  then show ?case by simp
next
  case (Cons s ss)
  show ?case
  proof (cases s)
    case GenerateSession
    with Cons.prems show ?thesis by simp
  next
    case (WriteResponse code b)
    with Cons show ?thesis by simp
  next
    case CloseTransport
    show ?thesis
    proof (cases "transportClose e n w t")
      case None
      with Cons.prems CloseTransport show ?thesis by simp
    next
      case (Some r)
      obtain c1 w1 where r: "r = (c1, w1)" by (cases r)
      have k1: "set (sessionIds w1) \<subseteq> set (sessionIds w)"
        using transportClose_keys Some r by blast
      show ?thesis
      proof (cases c1)
        case (Normal u)
        with Cons.prems CloseTransport Some r
        have "runSteps e n now t ss w1 res = Some (c, w', res')" and "GenerateSession \<notin> set ss"
          by simp_all
        with Cons.IH have "set (sessionIds w') \<subseteq> set (sessionIds w1)" by blast
        with k1 show ?thesis by blast
      next
        case (Throw m)
        with Cons.prems CloseTransport Some r k1 show ?thesis by simp
      qed
    qed
  next
    case (ThrowError m)
    with Cons.prems show ?thesis by simp
  qed
qed

lemma transportHandleRequest_keys:
  "GenerateSession \<notin> set (sdkHandleRequest e t req)
   \<Longrightarrow> transportHandleRequest e n now t req w res = Some (c, w', res')
   \<Longrightarrow> set (sessionIds w') \<subseteq> set (sessionIds w)"
  using runSteps_keys [of "sdkHandleRequest e t req" e n now t
      "w\<lparr>trace := trace w @ [TransportHandleRequest t (reqMethod req)]\<rparr>" res c w' res']
  by (simp add: transportHandleRequest_def)

lemma map_fst_map_entry: "map fst (AList.map_entry k f xs) = map fst xs"
  by (induction xs) auto

lemma sessionIds_touch [simp]: "sessionIds (touch now sid w) = sessionIds w"
  by (simp add: touch_def sessionIds_def map_fst_map_entry)

lemma createNewSession_sessions:
  "createNewSession e w = (c, w1) \<Longrightarrow> sessions w1 = sessions w"
  by (auto simp: createNewSession_def Let_def split: option.splits)


lemma handleMcpPost_try_keys:
  assumes "\<forall>t r. GenerateSession \<notin> set (sdkHandleRequest e t r)"
    and "handleMcpPost_try e n now w req res = Some (c, w', res')"
  shows "set (sessionIds w') \<subseteq> set (sessionIds w)"
proof -
  let ?sid = "mcpSessionIdHeader req"
  consider (reuse) "truthy ?sid \<and> has (sessions w) (the ?sid)"
    | (init) "\<not> (truthy ?sid \<and> has (sessions w) (the ?sid))"
             "\<not> truthy ?sid \<and> isInitializeRequest e (reqBody req)"
    | (bad) "\<not> (truthy ?sid \<and> has (sessions w) (the ?sid))"
            "\<not> (\<not> truthy ?sid \<and> isInitializeRequest e (reqBody req))"
    by blast
  then show ?thesis
  proof cases
    case reuse
    with assms(2) have "transportHandleRequest e n now
        (transport (the (map_of (sessions w) (the ?sid)))) req
        (logger LDebug ''Reusing existing session'' (touch now (the ?sid) w)) res = Some (c, w', res')"
      by (simp add: handleMcpPost_try_def Let_def)
    from transportHandleRequest_keys [OF _ this] assms(1) show ?thesis by simp
  next
    case init
    show ?thesis
    proof (cases "createNewSession e w")
      case (Pair c1 w1)
      have s1: "sessionIds w1 = sessionIds w"
        using createNewSession_sessions [OF Pair] by (simp add: sessionIds_def)
      show ?thesis
      proof (cases c1)
        case (Normal t)
        with init Pair assms(2) have "transportHandleRequest e n now t req
            (logger LDebug ''Created new session for initialization'' w1) res = Some (c, w', res')"
          by (simp add: handleMcpPost_try_def Let_def)
        from transportHandleRequest_keys [OF _ this] assms(1) s1 show ?thesis by simp
      next
        case (Throw m)
        with init Pair assms(2) s1 show ?thesis
          by (auto simp: handleMcpPost_try_def Let_def)
      qed
    qed
  next
    case bad
    with assms(2) show ?thesis
      by (auto simp: handleMcpPost_try_def Let_def)
  qed
qed

lemma handleMcpPost_keys:
  assumes "\<forall>t r. GenerateSession \<notin> set (sdkHandleRequest e t r)"
    and "handleMcpPost e n now w req res = Some (c, w', res')"
  shows "set (sessionIds w') \<subseteq> set (sessionIds w)"
proof (cases "handleMcpPost_try e n now w req res")
  case None
  with assms(2) show ?thesis by (simp add: handleMcpPost_def)
next
  case (Some r)
  obtain c1 w1 r1 where r: "r = (c1, w1, r1)" by (cases r)
  from handleMcpPost_try_keys [OF assms(1)] Some r
  have "set (sessionIds w1) \<subseteq> set (sessionIds w)" by blast
  with assms(2) Some r show ?thesis
    by (cases c1) (auto simp: handleMcpPost_def)
qed

lemma handleMcpGet_keys:
  assumes "\<forall>t r. GenerateSession \<notin> set (sdkHandleRequest e t r)"
    and "handleMcpGet e n now w req res = Some (c, w', res')"
  shows "set (sessionIds w') \<subseteq> set (sessionIds w)"
proof -
  let ?sid = "mcpSessionIdHeader req"
  let ?t = "transport (the (map_of (sessions w) (the ?sid)))"
  show ?thesis
  proof (cases "\<not> truthy ?sid \<or> \<not> has (sessions w) (the ?sid)")
    case True
    with assms(2) show ?thesis
      by (auto simp: handleMcpGet_def handleMcpGet_try_def Let_def)
  next
    case False
    show ?thesis
    proof (cases "transportHandleRequest e n now ?t req (touch now (the ?sid) w) res")
      case None
      with False assms(2) show ?thesis
        by (simp add: handleMcpGet_def handleMcpGet_try_def Let_def)
    next
      case (Some r)
      obtain c1 w1 r1 where r: "r = (c1, w1, r1)" by (cases r)
      from transportHandleRequest_keys [of e ?t req n now "touch now (the ?sid) w" res c1 w1 r1]
        assms(1) Some r
      have "set (sessionIds w1) \<subseteq> set (sessionIds w)" by simp
      with False assms(2) Some r show ?thesis
        by (cases c1) (auto simp: handleMcpGet_def handleMcpGet_try_def Let_def)
    qed
  qed
qed

lemma handleMcpDelete_keys:
  assumes "\<forall>t r. GenerateSession \<notin> set (sdkHandleRequest e t r)"
    and "handleMcpDelete e n now w req res = Some (c, w', res')"
  shows "set (sessionIds w') \<subseteq> set (sessionIds w)"
proof -
  let ?sid = "mcpSessionIdHeader req"
  let ?t = "transport (the (map_of (sessions w) (the ?sid)))"
  show ?thesis
  proof (cases "\<not> truthy ?sid \<or> \<not> has (sessions w) (the ?sid)")
    case True
    with assms(2) show ?thesis
      by (auto simp: handleMcpDelete_def handleMcpDelete_try_def Let_def)
  next
    case False
    show ?thesis
    proof (cases "transportHandleRequest e n now ?t req w res")
      case None
      with False assms(2) show ?thesis
        by (simp add: handleMcpDelete_def handleMcpDelete_try_def Let_def)
    next
      case (Some r)
      obtain c1 w1 r1 where r: "r = (c1, w1, r1)" by (cases r)
      from transportHandleRequest_keys [of e ?t req n now w res c1 w1 r1] assms(1) Some r
      have k1: "set (sessionIds w1) \<subseteq> set (sessionIds w)" by simp
      show ?thesis
      proof (cases c1)
        case (Throw m)
        with False assms(2) Some r k1 show ?thesis
          by (auto simp: handleMcpDelete_def handleMcpDelete_try_def Let_def)
      next
        case (Normal u)
        show ?thesis
        proof (cases "terminateSession e n w1 (the ?sid)")
          case None
          with False assms(2) Some r Normal show ?thesis
            by (simp add: handleMcpDelete_def handleMcpDelete_try_def Let_def)
        next
          case (Some q)
          obtain c2 w2 where q: "q = (c2, w2)" by (cases q)
          from terminateSession_keys Some q
          have "set (sessionIds w2) \<subseteq> set (sessionIds w1)" by blast
          with k1 have "set (sessionIds w2) \<subseteq> set (sessionIds w)" by blast
          with False assms(2) \<open>transportHandleRequest e n now ?t req w res = Some r\<close> r Normal Some q
          show ?thesis
            by (cases c2) (auto simp: handleMcpDelete_def handleMcpDelete_try_def Let_def)
        qed
      qed
    qed
  qed
qed

lemma terminateEach_keys:
  "terminateEach e n w ids = Some (c, w') \<Longrightarrow> set (sessionIds w') \<subseteq> set (sessionIds w)"
proof (induction ids arbitrary: w)
  case Nil
  then show ?case by simp
next
  case (Cons sid ids)
  show ?case
  proof (cases "terminateSession e n (logger LInfo ''Session expired, cleaning up'' w) sid")
    case None
    with Cons.prems show ?thesis by simp
  next
    case (Some q)
    obtain c2 w2 where q: "q = (c2, w2)" by (cases q)
    from terminateSession_keys Some q
    have k: "set (sessionIds w2) \<subseteq> set (sessionIds w)" by fastforce
    show ?thesis
    proof (cases c2)
      case (Normal u)
      with Cons.prems Some q have "terminateEach e n w2 ids = Some (c, w')" by simp
      from Cons.IH [OF this] k show ?thesis by blast
    next
      case (Throw m)
      with Cons.prems Some q k show ?thesis by simp
    qed
  qed
qed

lemma cleanupTick_keys:
  "cleanupTick e n now w = Some (c, w') \<Longrightarrow> set (sessionIds w') \<subseteq> set (sessionIds w)"
proof -
  assume a: "cleanupTick e n now w = Some (c, w')"
  let ?ids = "expiredSessions now (sessionTimeout (options w)) (sessions w)"
  show ?thesis
  proof (cases "terminateEach e n w ?ids")
    case None
    with a show ?thesis by (simp add: cleanupTick_def)
  next
    case (Some q)
    obtain c2 w2 where q: "q = (c2, w2)" by (cases q)
    from terminateEach_keys Some q have "set (sessionIds w2) \<subseteq> set (sessionIds w)" by blast
    with a Some q show ?thesis
      by (cases c2) (auto simp: cleanupTick_def Let_def split: if_splits)
  qed
qed

lemma closeAllSessions_keys:
  "closeAllSessions e n w ids = Some w' \<Longrightarrow> set (sessionIds w') \<subseteq> set (sessionIds w)"
proof (induction ids arbitrary: w)
  case Nil
  then show ?case by simp
next
  case (Cons sid ids)
  show ?case
  proof (cases "map_of (sessions w) sid")
    case None
    with Cons show ?thesis by simp
  next
    case (Some s)
    show ?thesis
    proof (cases "transportClose e n w (transport s)")
      case None
      with Cons.prems Some show ?thesis by simp
    next
      case (Some q)
      obtain c2 w2 where q: "q = (c2, w2)" by (cases q)
      from transportClose_keys Some q
      have k: "set (sessionIds w2) \<subseteq> set (sessionIds w)" by blast
      show ?thesis
      proof (cases c2)
        case (Normal u)
        with Cons.prems \<open>map_of (sessions w) sid = Some s\<close> Some q
        have "closeAllSessions e n
                (w2\<lparr>sessions := AList.delete sid (sessions w2),
                    totalSessionsTerminated := totalSessionsTerminated w2 + 1\<rparr>) ids = Some w'"
          by simp
        from Cons.IH [OF this] k show ?thesis by auto
      next
        case (Throw m)
        with Cons.prems \<open>map_of (sessions w) sid = Some s\<close> Some q
        have "closeAllSessions e n
                (logger LWarn ''Error closing session during shutdown'' w2) ids = Some w'"
          by simp
        from Cons.IH [OF this] k show ?thesis by auto
      qed
    qed
  qed
qed

lemma stop_keys:
  "stop e n w = Some w' \<Longrightarrow> set (sessionIds w') \<subseteq> set (sessionIds w)"
proof -
  assume a: "stop e n w = Some w'"
  show ?thesis
  proof (cases "\<not> server w \<or> \<not> isRunning w")
    case True
    with a show ?thesis by (auto simp: stop_def)
  next
    case False
    let ?w1 = "if cleanupInterval w then w\<lparr>cleanupInterval := False\<rparr> else w"
    have s1: "sessionIds ?w1 = sessionIds w" by (simp add: sessionIds_def)
    show ?thesis
    proof (cases "closeAllSessions e n ?w1 (map fst (sessions ?w1))")
      case None
      with a False show ?thesis by (simp add: stop_def Let_def)
    next
      case (Some w2)
      from closeAllSessions_keys [OF Some] s1
      have "set (sessionIds w2) \<subseteq> set (sessionIds w)" by simp
      moreover from a False Some have "sessionIds w' = sessionIds w2"
        by (auto simp: stop_def Let_def sessionIds_def)
      ultimately show ?thesis by simp
    qed
  qed
qed


subsection \<open>Creation of a session\<close>

lemma post_initialization:
  assumes "\<not> truthy (mcpSessionIdHeader req)" and "isInitializeRequest e (reqBody req)"
    and "mcpServerFactory e (nextTransport w) = None" and "mcpConnect e (nextTransport w) = None"
    and "sdkHandleRequest e (nextTransport w) req = [GenerateSession, WriteResponse code b]"
  shows "\<exists>w'. handleMcpPost e n now w req res = Some (Normal (), w', statusJson res code b)
     \<and> map_of (sessions w') (randomUUID e (uuidCalls w)) =
         Some \<lparr>sessionId = randomUUID e (uuidCalls w), transport = nextTransport w,
               createdAt = now, lastActivity = now\<rparr>
     \<and> totalSessionsCreated w' = totalSessionsCreated w + 1
     \<and> totalSessionsTerminated w' = totalSessionsTerminated w
     \<and> set (sessionIds w') = insert (randomUUID e (uuidCalls w)) (set (sessionIds w))
     \<and> (\<forall>k. k \<noteq> randomUUID e (uuidCalls w) \<longrightarrow> map_of (sessions w') k = map_of (sessions w) k)"
proof -
  let ?sid = "randomUUID e (uuidCalls w)"
  let ?t = "nextTransport w"
  let ?rec = "\<lparr>sessionId = ?sid, transport = ?t, createdAt = now, lastActivity = now\<rparr>"
  let ?w0 = "(logger LDebug ''Created new session for initialization'' (w\<lparr>nextTransport := ?t + 1\<rparr>))
               \<lparr>trace := trace w @ [Log LDebug ''Created new session for initialization'',
                                     TransportHandleRequest ?t (reqMethod req)]\<rparr>"
  let ?w' = "onsessioninitialized now ?t ?sid
               (?w0\<lparr>uuidCalls := uuidCalls w + 1, transportIds := AList.update ?t ?sid (transportIds w)\<rparr>)"
  have run: "handleMcpPost e n now w req res = Some (Normal (), ?w', statusJson res code b)"
    using assms
    by (simp add: handleMcpPost_def handleMcpPost_try_def createNewSession_def
          transportHandleRequest_def Let_def)
  have s: "sessions ?w' = AList.update ?sid ?rec (sessions w)"
    by (simp add: onsessioninitialized_def)
  have "map_of (sessions ?w') ?sid = Some ?rec"
    unfolding s by (simp add: update_conv')
  moreover have "totalSessionsCreated ?w' = totalSessionsCreated w + 1"
    by (simp add: onsessioninitialized_def)
  moreover have "totalSessionsTerminated ?w' = totalSessionsTerminated w"
    by (simp add: onsessioninitialized_def)
  moreover have "set (sessionIds ?w') = insert ?sid (set (sessionIds w))"
    unfolding sessionIds_def s using dom_update [of ?sid ?rec "sessions w"] by simp
  moreover have "\<forall>k. k \<noteq> ?sid \<longrightarrow> map_of (sessions ?w') k = map_of (sessions w) k"
    unfolding s by (simp add: update_conv')
  ultimately show ?thesis using run by blast
qed

lemma onsessioninitialized_stores:
  "map_of (sessions (onsessioninitialized now t sid w)) sid =
     Some \<lparr>sessionId = sid, transport = t, createdAt = now, lastActivity = now\<rparr>
   \<and> totalSessionsCreated (onsessioninitialized now t sid w) = totalSessionsCreated w + 1"
  by (simp add: onsessioninitialized_def update_conv')


text \<open>
  Claim C3, as the code has it. For a POST without a session id (header absent or empty)
  whose body is an initialization request, when the factory and \<open>connect\<close> succeed and
  the new transport handles the request by initializing its session and answering, the
  registry holds afterwards, under the id that \<open>randomUUID\<close> returned, a record of the
  new transport with both timestamps set to the current time; \<open>totalSessionsCreated\<close>
  has grown by one, and every other key maps to what it mapped to before. The callback
  stores its record and counts it whatever the state is. The callback is the only code
  that inserts: with transports that never run it, the POST, GET and DELETE handlers,
  the sweep and \<open>stop\<close> leave the registry with no key it did not have. The service does
  not compare the generated id with the registry.
\<close>

theorem session_registered_by_callback:
  "(\<not> truthy (mcpSessionIdHeader req) \<and> isInitializeRequest e (reqBody req)
      \<and> mcpServerFactory e (nextTransport w) = None \<and> mcpConnect e (nextTransport w) = None
      \<and> sdkHandleRequest e (nextTransport w) req = [GenerateSession, WriteResponse code b] \<longrightarrow>
      (\<exists>w'. handleMcpPost e n now w req res = Some (Normal (), w', statusJson res code b)
         \<and> map_of (sessions w') (randomUUID e (uuidCalls w)) =
             Some \<lparr>sessionId = randomUUID e (uuidCalls w), transport = nextTransport w,
                   createdAt = now, lastActivity = now\<rparr>
         \<and> totalSessionsCreated w' = totalSessionsCreated w + 1
         \<and> totalSessionsTerminated w' = totalSessionsTerminated w
         \<and> set (sessionIds w') = insert (randomUUID e (uuidCalls w)) (set (sessionIds w))
         \<and> (\<forall>k. k \<noteq> randomUUID e (uuidCalls w) \<longrightarrow> map_of (sessions w') k = map_of (sessions w) k)))
   \<and> map_of (sessions (onsessioninitialized now t sid w)) sid =
         Some \<lparr>sessionId = sid, transport = t, createdAt = now, lastActivity = now\<rparr>
   \<and> totalSessionsCreated (onsessioninitialized now t sid w) = totalSessionsCreated w + 1
   \<and> ((\<forall>t r. GenerateSession \<notin> set (sdkHandleRequest e t r)) \<longrightarrow>
        (\<forall>c w' res'. handleMcpPost e n now w req res = Some (c, w', res')
            \<longrightarrow> set (sessionIds w') \<subseteq> set (sessionIds w))
        \<and> (\<forall>c w' res'. handleMcpGet e n now w req res = Some (c, w', res')
            \<longrightarrow> set (sessionIds w') \<subseteq> set (sessionIds w))
        \<and> (\<forall>c w' res'. handleMcpDelete e n now w req res = Some (c, w', res')
            \<longrightarrow> set (sessionIds w') \<subseteq> set (sessionIds w))
        \<and> (\<forall>c w'. cleanupTick e n now w = Some (c, w')
            \<longrightarrow> set (sessionIds w') \<subseteq> set (sessionIds w))
        \<and> (\<forall>w'. stop e n w = Some w' \<longrightarrow> set (sessionIds w') \<subseteq> set (sessionIds w)))"
proof -
  have a: "\<not> truthy (mcpSessionIdHeader req) \<and> isInitializeRequest e (reqBody req)
      \<and> mcpServerFactory e (nextTransport w) = None \<and> mcpConnect e (nextTransport w) = None
      \<and> sdkHandleRequest e (nextTransport w) req = [GenerateSession, WriteResponse code b] \<longrightarrow>
      (\<exists>w'. handleMcpPost e n now w req res = Some (Normal (), w', statusJson res code b)
         \<and> map_of (sessions w') (randomUUID e (uuidCalls w)) =
             Some \<lparr>sessionId = randomUUID e (uuidCalls w), transport = nextTransport w,
                   createdAt = now, lastActivity = now\<rparr>
         \<and> totalSessionsCreated w' = totalSessionsCreated w + 1
         \<and> totalSessionsTerminated w' = totalSessionsTerminated w
         \<and> set (sessionIds w') = insert (randomUUID e (uuidCalls w)) (set (sessionIds w))
         \<and> (\<forall>k. k \<noteq> randomUUID e (uuidCalls w) \<longrightarrow> map_of (sessions w') k = map_of (sessions w) k))"
    using post_initialization [of req e w code b n now res] by blast
  have b: "(\<forall>t r. GenerateSession \<notin> set (sdkHandleRequest e t r)) \<longrightarrow>
        (\<forall>c w' res'. handleMcpPost e n now w req res = Some (c, w', res')
            \<longrightarrow> set (sessionIds w') \<subseteq> set (sessionIds w))
        \<and> (\<forall>c w' res'. handleMcpGet e n now w req res = Some (c, w', res')
            \<longrightarrow> set (sessionIds w') \<subseteq> set (sessionIds w))
        \<and> (\<forall>c w' res'. handleMcpDelete e n now w req res = Some (c, w', res')
            \<longrightarrow> set (sessionIds w') \<subseteq> set (sessionIds w))
        \<and> (\<forall>c w'. cleanupTick e n now w = Some (c, w')
            \<longrightarrow> set (sessionIds w') \<subseteq> set (sessionIds w))
        \<and> (\<forall>w'. stop e n w = Some w' \<longrightarrow> set (sessionIds w') \<subseteq> set (sessionIds w))"
    using handleMcpPost_keys [of e n now w req res] handleMcpGet_keys [of e n now w req res]
      handleMcpDelete_keys [of e n now w req res] cleanupTick_keys [of e n now w]
      stop_keys [of e n w]
    by blast
  from a b onsessioninitialized_stores [of now t sid w] show ?thesis by blast
qed

theorem session_registered_by_callback_witness:
  "\<not> truthy (mcpSessionIdHeader (mkRequest POST None initializeBody))
   \<and> isInitializeRequest quietEnv (reqBody (mkRequest POST None initializeBody))
   \<and> mcpServerFactory quietEnv (nextTransport idleService) = None
   \<and> mcpConnect quietEnv (nextTransport idleService) = None
   \<and> sdkHandleRequest quietEnv (nextTransport idleService) (mkRequest POST None initializeBody) =
       [GenerateSession, WriteResponse 200 (JObj [(''result'', JStr ''initialized'')])]
   \<and> (\<exists>w'. handleMcpPost quietEnv 1 7 idleService (mkRequest POST None initializeBody) newResponse =
               Some (Normal (), w', statusJson newResponse 200 (JObj [(''result'', JStr ''initialized'')]))
          \<and> map_of (sessions w') ''uuid-'' =
               Some \<lparr>sessionId = ''uuid-'', transport = 0, createdAt = 7, lastActivity = 7\<rparr>
          \<and> totalSessionsCreated w' = 1
          \<and> set (sessionIds w') = {''uuid-''})
   \<and> (\<forall>t r. GenerateSession \<notin> set (sdkHandleRequest throwingEnv t r))
   \<and> handleMcpPost throwingEnv 1 7 oneSession (mkRequest POST (Some ''uuid-'') toolsBody) newResponse \<noteq> None
   \<and> set (sessionIds (the (serviceAfter
        (handleMcpPost throwingEnv 1 7 oneSession (mkRequest POST (Some ''uuid-'') toolsBody) newResponse))))
       \<subseteq> set (sessionIds oneSession)
   \<and> handleMcpGet throwingEnv 1 7 oneSession (mkRequest GET (Some ''uuid-'') JNull) newResponse \<noteq> None
   \<and> set (sessionIds (the (serviceAfter
        (handleMcpGet throwingEnv 1 7 oneSession (mkRequest GET (Some ''uuid-'') JNull) newResponse))))
       \<subseteq> set (sessionIds oneSession)
   \<and> handleMcpDelete throwingEnv 1 7 oneSession (mkRequest DELETE (Some ''uuid-'') JNull) newResponse \<noteq> None
   \<and> set (sessionIds (the (serviceAfter
        (handleMcpDelete throwingEnv 1 7 oneSession (mkRequest DELETE (Some ''uuid-'') JNull) newResponse))))
       \<subseteq> set (sessionIds oneSession)
   \<and> cleanupTick throwingEnv 2 1860000 oneSession \<noteq> None
   \<and> set (sessionIds (snd (the (cleanupTick throwingEnv 2 1860000 oneSession))))
       \<subseteq> set (sessionIds oneSession)
   \<and> stop throwingEnv 2 oneSession \<noteq> None
   \<and> set (sessionIds (the (stop throwingEnv 2 oneSession))) \<subseteq> set (sessionIds oneSession)"
proof -
  let ?rqI = "mkRequest POST None initializeBody"
  let ?rqP = "mkRequest POST (Some ''uuid-'') toolsBody"
  let ?rqG = "mkRequest GET (Some ''uuid-'') JNull"
  let ?rqD = "mkRequest DELETE (Some ''uuid-'') JNull"
  have hyp: "\<not> truthy (mcpSessionIdHeader ?rqI) \<and> isInitializeRequest quietEnv (reqBody ?rqI)
      \<and> mcpServerFactory quietEnv (nextTransport idleService) = None
      \<and> mcpConnect quietEnv (nextTransport idleService) = None
      \<and> sdkHandleRequest quietEnv (nextTransport idleService) ?rqI =
          [GenerateSession, WriteResponse 200 (JObj [(''result'', JStr ''initialized'')])]"
    by (simp add: mkRequest_def quietEnv_def idleService_def)
  have ids: "randomUUID quietEnv (uuidCalls idleService) = ''uuid-''"
    "nextTransport idleService = 0" "totalSessionsCreated idleService = 0"
    "sessionIds idleService = []"
    by (simp_all add: quietEnv_def idleService_def sessionIds_def)
  have noInit: "\<forall>t r. GenerateSession \<notin> set (sdkHandleRequest throwingEnv t r)"
    by (simp add: throwingEnv_def)
  have p: "handleMcpPost throwingEnv 1 7 oneSession ?rqP newResponse \<noteq> None"
    by (simp add: handleMcpPost_def handleMcpPost_try_def transportHandleRequest_def
          mkRequest_def oneSession_def idleService_def has_def throwingEnv_def Let_def)
  have g: "handleMcpGet throwingEnv 1 7 oneSession ?rqG newResponse \<noteq> None"
    by (simp add: handleMcpGet_def handleMcpGet_try_def transportHandleRequest_def
          mkRequest_def oneSession_def idleService_def has_def throwingEnv_def Let_def)
  have d: "handleMcpDelete throwingEnv 1 7 oneSession ?rqD newResponse \<noteq> None"
    by (simp add: handleMcpDelete_def handleMcpDelete_try_def transportHandleRequest_def
          mkRequest_def oneSession_def idleService_def has_def throwingEnv_def Let_def)
  have c: "cleanupTick throwingEnv 2 1860000 oneSession \<noteq> None"
    by (simp add: cleanupTick_def expiredSessions_def expired_def mergeOptions_def noOptions_def
          oneSession_def idleService_def throwingEnv_def quietEnv_def numeral_2_eq_2 Let_def)
  have s: "stop throwingEnv 2 oneSession \<noteq> None"
    by (simp add: stop_def oneSession_def idleService_def throwingEnv_def quietEnv_def
          numeral_2_eq_2 Let_def)
  note inst1 = session_registered_by_callback
      [of ?rqI quietEnv idleService 200 "JObj [(''result'', JStr ''initialized'')]" 1 7 newResponse,
       THEN conjunct1, THEN mp, OF hyp]
  note keysP = session_registered_by_callback
      [of ?rqP throwingEnv oneSession _ _ 1 7 newResponse,
       THEN conjunct2, THEN conjunct2, THEN conjunct2, THEN mp, OF noInit]
  note keysG = session_registered_by_callback
      [of ?rqG throwingEnv oneSession _ _ 1 7 newResponse,
       THEN conjunct2, THEN conjunct2, THEN conjunct2, THEN mp, OF noInit]
  note keysD = session_registered_by_callback
      [of ?rqD throwingEnv oneSession _ _ 1 7 newResponse,
       THEN conjunct2, THEN conjunct2, THEN conjunct2, THEN mp, OF noInit]
  note keysT = session_registered_by_callback
      [of ?rqD throwingEnv oneSession _ _ 2 1860000 newResponse,
       THEN conjunct2, THEN conjunct2, THEN conjunct2, THEN mp, OF noInit]
  have c1: "\<exists>w'. handleMcpPost quietEnv 1 7 idleService ?rqI newResponse =
               Some (Normal (), w', statusJson newResponse 200 (JObj [(''result'', JStr ''initialized'')]))
          \<and> map_of (sessions w') ''uuid-'' =
               Some \<lparr>sessionId = ''uuid-'', transport = 0, createdAt = 7, lastActivity = 7\<rparr>
          \<and> totalSessionsCreated w' = 1
          \<and> set (sessionIds w') = {''uuid-''}"
  proof -
    from inst1 obtain w' where
      "handleMcpPost quietEnv 1 7 idleService ?rqI newResponse =
         Some (Normal (), w', statusJson newResponse 200 (JObj [(''result'', JStr ''initialized'')]))"
      and "map_of (sessions w') (randomUUID quietEnv (uuidCalls idleService)) =
             Some \<lparr>sessionId = randomUUID quietEnv (uuidCalls idleService),
                   transport = nextTransport idleService, createdAt = 7, lastActivity = 7\<rparr>"
      and "totalSessionsCreated w' = totalSessionsCreated idleService + 1"
      and "set (sessionIds w') =
             insert (randomUUID quietEnv (uuidCalls idleService)) (set (sessionIds idleService))"
      by blast
    then show ?thesis by (simp add: ids)
  qed
  have c2: "set (sessionIds (the (serviceAfter (handleMcpPost throwingEnv 1 7 oneSession ?rqP newResponse))))
       \<subseteq> set (sessionIds oneSession)"
  proof -
    from p obtain c w' r' where
      x: "handleMcpPost throwingEnv 1 7 oneSession ?rqP newResponse = Some (c, w', r')"
      by (cases "handleMcpPost throwingEnv 1 7 oneSession ?rqP newResponse") auto
    from keysP [THEN conjunct1, rule_format, OF x] show ?thesis
      unfolding serviceAfter_def x by simp
  qed
  have c3: "set (sessionIds (the (serviceAfter (handleMcpGet throwingEnv 1 7 oneSession ?rqG newResponse))))
       \<subseteq> set (sessionIds oneSession)"
  proof -
    from g obtain c w' r' where
      x: "handleMcpGet throwingEnv 1 7 oneSession ?rqG newResponse = Some (c, w', r')"
      by (cases "handleMcpGet throwingEnv 1 7 oneSession ?rqG newResponse") auto
    from keysG [THEN conjunct2, THEN conjunct1, rule_format, OF x] show ?thesis
      unfolding serviceAfter_def x by simp
  qed
  have c4: "set (sessionIds (the (serviceAfter (handleMcpDelete throwingEnv 1 7 oneSession ?rqD newResponse))))
       \<subseteq> set (sessionIds oneSession)"
  proof -
    from d obtain c w' r' where
      x: "handleMcpDelete throwingEnv 1 7 oneSession ?rqD newResponse = Some (c, w', r')"
      by (cases "handleMcpDelete throwingEnv 1 7 oneSession ?rqD newResponse") auto
    from keysD [THEN conjunct2, THEN conjunct2, THEN conjunct1, rule_format, OF x] show ?thesis
      unfolding serviceAfter_def x by simp
  qed
  have c5: "set (sessionIds (snd (the (cleanupTick throwingEnv 2 1860000 oneSession))))
       \<subseteq> set (sessionIds oneSession)"
  proof -
    from c obtain c' w' where
      x: "cleanupTick throwingEnv 2 1860000 oneSession = Some (c', w')"
      by (cases "cleanupTick throwingEnv 2 1860000 oneSession") auto
    from keysT [THEN conjunct2, THEN conjunct2, THEN conjunct2, THEN conjunct1, rule_format, OF x]
    show ?thesis unfolding x by simp
  qed
  have c6: "set (sessionIds (the (stop throwingEnv 2 oneSession))) \<subseteq> set (sessionIds oneSession)"
  proof -
    from s obtain w' where x: "stop throwingEnv 2 oneSession = Some w'"
      by (cases "stop throwingEnv 2 oneSession") auto
    from keysT [THEN conjunct2, THEN conjunct2, THEN conjunct2, THEN conjunct2, rule_format, OF x]
    show ?thesis unfolding x by simp
  qed
  from hyp c1 noInit p c2 g c3 d c4 c c5 s c6 show ?thesis by blast
qed

text \<open>
  The claim as it is written promises a fresh id. The id is whatever \<open>randomUUID\<close>
  returns: when that is an id already in the registry, the record stored under it is
  replaced and no key is added.
\<close>

theorem generated_id_collision_counterexample:
  "''uuid-'' \<in> set (sessionIds oneSession)
   \<and> map_option (\<lambda>w'. map_of (sessions w') ''uuid-'')
       (serviceAfter (handleMcpPost repeatingEnv 1 7 oneSession
                        (mkRequest POST None initializeBody) newResponse)) =
       Some (Some \<lparr>sessionId = ''uuid-'', transport = 1, createdAt = 7, lastActivity = 7\<rparr>)
   \<and> map_option sessionIds
       (serviceAfter (handleMcpPost repeatingEnv 1 7 oneSession
                        (mkRequest POST None initializeBody) newResponse)) = Some [''uuid-'']
   \<and> map_option totalSessionsCreated
       (serviceAfter (handleMcpPost repeatingEnv 1 7 oneSession
                        (mkRequest POST None initializeBody) newResponse)) = Some 2"
  by (simp add: handleMcpPost_def handleMcpPost_try_def createNewSession_def
        transportHandleRequest_def onsessioninitialized_def statusJson_def
        mkRequest_def oneSession_def idleService_def has_def repeatingEnv_def quietEnv_def
        newResponse_def serviceAfter_def sessionIds_def Let_def)


subsection \<open>Explicit termination\<close>

text \<open>
  When \<open>close\<close> of a transport returns without calling back, \<open>terminateSession\<close> closes
  the transport once, deletes the entry and counts it; and a \<open>handleRequest\<close> that does
  not throw leaves the session of its transport in the registry.
\<close>

lemma transportClose_returns:
  "sdkClose e t = CloseReturns \<Longrightarrow> 1 \<le> n
   \<Longrightarrow> transportClose e n w t = Some (Normal (), w\<lparr>trace := trace w @ [TransportClose t]\<rparr>)"
  by (cases n) (simp_all add: Let_def)

lemma terminateSession_returns:
  assumes "map_of (sessions w) sid = Some s" and "sdkClose e (transport s) = CloseReturns" and "2 \<le> n"
  shows "terminateSession e n w sid =
           Some (Normal (),
                 w\<lparr>trace := trace w @ [TransportClose (transport s), Log LDebug ''Session cleaned up''],
                   sessions := AList.delete sid (sessions w),
                   totalSessionsTerminated := totalSessionsTerminated w + 1\<rparr>)"
proof -
  from assms(3) obtain k where n: "n = Suc k" and k: "1 \<le> k" by (cases n) auto
  from transportClose_returns [OF assms(2) k]
  have "transportClose e k w (transport s) =
          Some (Normal (), w\<lparr>trace := trace w @ [TransportClose (transport s)]\<rparr>)" .
  with assms(1) n show ?thesis by (simp add: logger_def)
qed






















subsection \<open>Refreshing \<open>lastActivity\<close>\<close>

text \<open>
  The POST and the GET handler set \<open>lastActivity\<close> of the session to the current time
  and hand the request to the transport in that state.
\<close>

lemma routed_post_get_refresh:
  assumes "mcpSessionIdHeader req = Some sid" and "sid \<noteq> []"
    and "map_of (sessions w) sid = Some s"
  shows "handleMcpPost_try e n now w req res =
           transportHandleRequest e n now (transport s) req
             (logger LDebug ''Reusing existing session'' (touch now sid w)) res"
    and "handleMcpGet_try e n now w req res =
           (case transportHandleRequest e n now (transport s) req (touch now sid w) res of
              None \<Rightarrow> None
            | Some (Throw m, w2, res2) \<Rightarrow> Some (Throw m, w2, res2)
            | Some (Normal u, w2, res2) \<Rightarrow>
                Some (Normal (), logger LDebug ''Handled SSE request'' w2, res2))"
    and "map_of (sessions (touch now sid w)) sid = Some (s\<lparr>lastActivity := now\<rparr>)"
  using assms
  by (simp_all add: handleMcpPost_try_def handleMcpGet_try_def has_def touch_def Let_def
        map_of_map_entry)

text \<open>
  Claim C9 at a DELETE. The session \<open>uuid-\<close> was last active at time 0 and the request
  arrives at time 7. After a POST and after a GET the session's \<open>lastActivity\<close> is 7.
  The DELETE handler hands the request to the transport without touching
  \<open>lastActivity\<close>: when the transport then throws, the session is still registered and
  its \<open>lastActivity\<close> is still 0.
\<close>

theorem delete_skips_lastActivity:
  "lastActivities oneSession = [(''uuid-'', 0)]
   \<and> map_option lastActivities
       (serviceAfter (handleMcpPost failingDeleteEnv 2 7 oneSession
                        (mkRequest POST (Some ''uuid-'') toolsBody) newResponse)) = Some [(''uuid-'', 7)]
   \<and> map_option lastActivities
       (serviceAfter (handleMcpGet failingDeleteEnv 2 7 oneSession
                        (mkRequest GET (Some ''uuid-'') JNull) newResponse)) = Some [(''uuid-'', 7)]
   \<and> map_option lastActivities
       (serviceAfter (handleMcpDelete failingDeleteEnv 2 7 oneSession
                        (mkRequest DELETE (Some ''uuid-'') JNull) newResponse)) = Some [(''uuid-'', 0)]"
  by (simp add: handleMcpDelete_def handleMcpDelete_try_def handleMcpPost_def handleMcpPost_try_def
        handleMcpGet_def handleMcpGet_try_def
        transportHandleRequest_def touch_def lastActivities_def
        mkRequest_def oneSession_def idleService_def has_def failingDeleteEnv_def quietEnv_def
        serviceAfter_def Let_def)

subsection \<open>The sweep and the \<open>onclose\<close> hook\<close>

text \<open>
  When \<open>close\<close> of a session's transport invokes the \<open>onclose\<close> hook, the hook calls
  \<open>terminateSession\<close> for the session while its entry is still in the registry, which
  calls \<open>close\<close> again: the calls nest without end.
\<close>

lemma terminateSession_reenters:
  assumes "sdkClose e t = CloseInvokesOnclose" and "sid \<noteq> []"
    and "map_of (sessions w) sid = Some s" and "transport s = t"
    and "map_of (transportIds w) t = Some sid"
  shows "terminateSession e (Suc (Suc n)) w sid =
           (case terminateSession e n (w\<lparr>trace := trace w @ [TransportClose t]\<rparr>) sid of
              None \<Rightarrow> None
            | Some (Throw m, w1) \<Rightarrow> Some (Throw m, w1)
            | Some (Normal u, w1) \<Rightarrow>
                Some (Normal (),
                      logger LDebug ''Session cleaned up''
                        (w1\<lparr>sessions := AList.delete sid (sessions w1),
                            totalSessionsTerminated := totalSessionsTerminated w1 + 1\<rparr>)))"
  using assms by (simp add: Let_def)

lemma reentry_never_returns:
  assumes "sdkClose e t = CloseInvokesOnclose" and "sid \<noteq> []"
  shows "map_of (sessions w) sid = Some s \<and> transport s = t \<and> map_of (transportIds w) t = Some sid
         \<longrightarrow> terminateSession e n w sid = None \<and> transportClose e n w t = None"
proof (induction n arbitrary: w)
  case 0
  show ?case by simp
next
  case (Suc n)
  show ?case
  proof
    assume a: "map_of (sessions w) sid = Some s \<and> transport s = t \<and> map_of (transportIds w) t = Some sid"
    let ?w1 = "w\<lparr>trace := trace w @ [TransportClose t]\<rparr>"
    from a Suc [of w] have "transportClose e n w t = None" by simp
    with a have ts: "terminateSession e (Suc n) w sid = None" by simp
    from a have "map_of (sessions ?w1) sid = Some s \<and> transport s = t
                 \<and> map_of (transportIds ?w1) t = Some sid" by simp
    with Suc [of ?w1] have "terminateSession e n ?w1 sid = None" by simp
    with a assms have "transportClose e (Suc n) w t = None" by (simp add: Let_def)
    with ts show "terminateSession e (Suc n) w sid = None \<and> transportClose e (Suc n) w t = None"
      by simp
  qed
qed

text \<open>
  When \<open>close\<close> of every transport returns without calling back, one tick of the sweep
  removes exactly the sessions idle past the timeout, counts each of them, and calls
  \<open>close\<close> once for each, in the order of the registry. A hook that runs after its
  session was removed finds no entry and does nothing.
\<close>

lemma terminateEach_quiet:
  assumes "\<forall>t. sdkClose e t = CloseReturns" and "2 \<le> n"
  shows "distinct ids \<Longrightarrow> \<forall>sid \<in> set ids. map_of (sessions w) sid \<noteq> None \<Longrightarrow>
         \<exists>w' evs. terminateEach e n w ids = Some (Normal (), w')
           \<and> sessions w' = filter (\<lambda>(k, s). k \<notin> set ids) (sessions w)
           \<and> totalSessionsTerminated w' = totalSessionsTerminated w + length ids
           \<and> trace w' = trace w @ evs
           \<and> filter isClose evs =
                map (\<lambda>sid. TransportClose (transport (the (map_of (sessions w) sid)))) ids"
proof (induction ids arbitrary: w)
  case Nil
  then show ?case by simp
next
  case (Cons sid ids)
  let ?w0 = "logger LInfo ''Session expired, cleaning up'' w"
  from Cons.prems(2) obtain s where s: "map_of (sessions w) sid = Some s" by auto
  let ?w1 = "?w0\<lparr>trace := trace ?w0 @ [TransportClose (transport s), Log LDebug ''Session cleaned up''],
                  sessions := AList.delete sid (sessions ?w0),
                  totalSessionsTerminated := totalSessionsTerminated ?w0 + 1\<rparr>"
  have t: "terminateSession e n ?w0 sid = Some (Normal (), ?w1)"
    using terminateSession_returns [of ?w0 sid s e n] s assms by simp
  have d: "distinct ids" and notin: "sid \<notin> set ids" using Cons.prems(1) by simp_all
  have m: "\<And>k. k \<noteq> sid \<Longrightarrow> map_of (sessions ?w1) k = map_of (sessions w) k"
    by (simp add: delete_conv)
  have pres: "\<forall>k \<in> set ids. map_of (sessions ?w1) k \<noteq> None"
    using Cons.prems(2) notin by (auto simp: delete_conv)
  from Cons.IH [OF d pres] obtain w' evs where
    x: "terminateEach e n ?w1 ids = Some (Normal (), w')"
       "sessions w' = filter (\<lambda>(k, s). k \<notin> set ids) (sessions ?w1)"
       "totalSessionsTerminated w' = totalSessionsTerminated ?w1 + length ids"
       "trace w' = trace ?w1 @ evs"
       "filter isClose evs = map (\<lambda>k. TransportClose (transport (the (map_of (sessions ?w1) k)))) ids"
    by blast
  let ?evs = "[Log LInfo ''Session expired, cleaning up'', TransportClose (transport s),
               Log LDebug ''Session cleaned up''] @ evs"
  have r1: "terminateEach e n w (sid # ids) = Some (Normal (), w')" using t x(1) by simp
  have r2: "sessions w' = filter (\<lambda>(k, s). k \<notin> set (sid # ids)) (sessions w)"
    using x(2) by (auto simp: AList.delete_eq split_def intro: filter_cong)
  have r3: "totalSessionsTerminated w' = totalSessionsTerminated w + length (sid # ids)"
    using x(3) by simp
  have r4: "trace w' = trace w @ ?evs" using x(4) by simp
  have "map (\<lambda>k. TransportClose (transport (the (map_of (sessions ?w1) k)))) ids =
        map (\<lambda>k. TransportClose (transport (the (map_of (sessions w) k)))) ids"
    using notin by (intro map_cong) (auto simp: delete_conv)
  then have r5: "filter isClose ?evs =
        map (\<lambda>k. TransportClose (transport (the (map_of (sessions w) k)))) (sid # ids)"
    using x(5) s by (simp add: isClose_def)
  from r1 r2 r3 r4 r5 show ?case by blast
qed

lemma expiredSessions_registered:
  "distinct (map fst m) \<Longrightarrow>
   distinct (expiredSessions now timeout m)
   \<and> (\<forall>sid \<in> set (expiredSessions now timeout m). map_of m sid \<noteq> None)
   \<and> (\<forall>sid s. map_of m sid = Some s \<longrightarrow> (sid \<in> set (expiredSessions now timeout m)) = expired now timeout s)"
proof (induction m)
  case Nil
  show ?case by (simp add: expiredSessions_def)
next
  case (Cons p m)
  obtain k v where p: "p = (k, v)" by (cases p)
  from Cons.prems p have d: "distinct (map fst m)" and nk: "k \<notin> fst ` set m" by auto
  from Cons.IH [OF d] have ih1: "distinct (expiredSessions now timeout m)"
    and ih2: "\<forall>sid \<in> set (expiredSessions now timeout m). map_of m sid \<noteq> None"
    and ih3: "\<forall>sid s. map_of m sid = Some s \<longrightarrow> (sid \<in> set (expiredSessions now timeout m)) = expired now timeout s"
    by blast+
  have sub: "set (expiredSessions now timeout m) \<subseteq> fst ` set m"
    by (auto simp: expiredSessions_def)
  with nk have knot: "k \<notin> set (expiredSessions now timeout m)" by blast
  have e: "expiredSessions now timeout (p # m) =
        (if expired now timeout v then k # expiredSessions now timeout m else expiredSessions now timeout m)"
    by (simp add: expiredSessions_def p)
  have a1: "distinct (expiredSessions now timeout (p # m))" using ih1 knot e by simp
  have a2: "\<forall>sid \<in> set (expiredSessions now timeout (p # m)). map_of (p # m) sid \<noteq> None"
    using ih2 e p by auto
  have a3: "\<forall>sid s. map_of (p # m) sid = Some s \<longrightarrow>
              (sid \<in> set (expiredSessions now timeout (p # m))) = expired now timeout s"
    using ih3 e p knot by auto
  from a1 a2 a3 show ?case by blast
qed

lemma cleanupTick_quiet:
  assumes "\<forall>t. sdkClose e t = CloseReturns" and "2 \<le> n" and "distinct (map fst (sessions w))"
  shows "\<exists>w' evs. cleanupTick e n now w = Some (Normal (), w')
           \<and> sessions w' = filter (\<lambda>(k, s). \<not> expired now (sessionTimeout (options w)) s) (sessions w)
           \<and> totalSessionsTerminated w' =
               totalSessionsTerminated w
               + length (expiredSessions now (sessionTimeout (options w)) (sessions w))
           \<and> trace w' = trace w @ evs
           \<and> filter isClose evs =
                map (\<lambda>sid. TransportClose (transport (the (map_of (sessions w) sid))))
                  (expiredSessions now (sessionTimeout (options w)) (sessions w))"
proof -
  let ?ids = "expiredSessions now (sessionTimeout (options w)) (sessions w)"
  note ex = expiredSessions_registered [OF assms(3), of now "sessionTimeout (options w)"]
  from ex have d: "distinct ?ids" and r: "\<forall>sid \<in> set ?ids. map_of (sessions w) sid \<noteq> None"
    by blast+
  from terminateEach_quiet [OF assms(1,2) d r] obtain w1 evs where
    x: "terminateEach e n w ?ids = Some (Normal (), w1)"
       "sessions w1 = filter (\<lambda>(k, s). k \<notin> set ?ids) (sessions w)"
       "totalSessionsTerminated w1 = totalSessionsTerminated w + length ?ids"
       "trace w1 = trace w @ evs"
       "filter isClose evs = map (\<lambda>sid. TransportClose (transport (the (map_of (sessions w) sid)))) ?ids"
    by blast
  let ?w' = "if ?ids \<noteq> [] then logger LDebug ''Session cleanup completed'' w1 else w1"
  let ?evs = "if ?ids \<noteq> [] then evs @ [Log LDebug ''Session cleanup completed''] else evs"
  have r1: "cleanupTick e n now w = Some (Normal (), ?w')"
    using x(1) by (simp add: cleanupTick_def Let_def)
  have f: "filter (\<lambda>(k, s). k \<notin> set ?ids) (sessions w) =
           filter (\<lambda>(k, s). \<not> expired now (sessionTimeout (options w)) s) (sessions w)"
  proof (rule filter_cong [OF refl])
    fix p assume pin: "p \<in> set (sessions w)"
    obtain k s where p: "p = (k, s)" by (cases p)
    from pin p assms(3) have "map_of (sessions w) k = Some s" by simp
    with ex have "(k \<in> set ?ids) = expired now (sessionTimeout (options w)) s" by blast
    with p show "(case p of (k, s) \<Rightarrow> k \<notin> set ?ids) =
                 (case p of (k, s) \<Rightarrow> \<not> expired now (sessionTimeout (options w)) s)" by simp
  qed
  have r2: "sessions ?w' = filter (\<lambda>(k, s). \<not> expired now (sessionTimeout (options w)) s) (sessions w)"
    using x(2) f by simp
  have r3: "totalSessionsTerminated ?w' = totalSessionsTerminated w + length ?ids"
    using x(3) by simp
  have r4: "trace ?w' = trace w @ ?evs" using x(4) by simp
  have r5: "filter isClose ?evs =
            map (\<lambda>sid. TransportClose (transport (the (map_of (sessions w) sid)))) ?ids"
    using x(5) by (simp add: isClose_def)
  from r1 r2 r3 r4 r5 show ?thesis by blast
qed

lemma late_onclose_is_noop:
  "map_of (sessions w) sid = None \<Longrightarrow> terminateSession e (Suc n) w sid = Some (Normal (), w)"
  by simp

text \<open>
  Claim C4 at a session idle past the timeout. The session \<open>uuid-\<close> was last active at
  time 0, the timeout is 30 minutes and the tick comes at 31 minutes. With a transport
  whose \<open>close\<close> returns without calling back, the tick removes the session, counts it
  and closes the transport once. With a transport whose \<open>close\<close> invokes the \<open>onclose\<close>
  hook, \<open>terminateSession\<close> enters \<open>close\<close>, which enters \<open>terminateSession\<close> again on a
  service that differs only by the trace entry of the close: the session is still
  registered, so \<open>close\<close> is entered a second time before \<open>sessions.delete\<close> is reached,
  and so on. The tick does not complete at any depth of nested calls.
\<close>

theorem sweep_reenters_close:
  "expiredSessions 1860000 (sessionTimeout (options oneSession)) (sessions oneSession) = [''uuid-'']
   \<and> cleanupTick quietEnv 2 1860000 oneSession =
       Some (Normal (),
             oneSession\<lparr>sessions := [], totalSessionsTerminated := 1,
                        trace := [Log LInfo ''Session expired, cleaning up'', TransportClose 0,
                                  Log LDebug ''Session cleaned up'',
                                  Log LDebug ''Session cleanup completed'']\<rparr>)
   \<and> (\<forall>n. terminateSession hookEnv (Suc (Suc n)) oneSession ''uuid-'' =
         (case terminateSession hookEnv n (oneSession\<lparr>trace := [TransportClose 0]\<rparr>) ''uuid-'' of
            None \<Rightarrow> None
          | Some (Throw m, w1) \<Rightarrow> Some (Throw m, w1)
          | Some (Normal u, w1) \<Rightarrow>
              Some (Normal (),
                    logger LDebug ''Session cleaned up''
                      (w1\<lparr>sessions := AList.delete ''uuid-'' (sessions w1),
                          totalSessionsTerminated := totalSessionsTerminated w1 + 1\<rparr>))))
   \<and> (\<forall>n. cleanupTick hookEnv n 1860000 oneSession = None)"
proof -
  have ex: "expiredSessions 1860000 (sessionTimeout (options oneSession)) (sessions oneSession) = [''uuid-'']"
    by (simp add: expiredSessions_def expired_def mergeOptions_def noOptions_def
          oneSession_def idleService_def)
  have quiet: "cleanupTick quietEnv 2 1860000 oneSession =
       Some (Normal (),
             oneSession\<lparr>sessions := [], totalSessionsTerminated := 1,
                        trace := [Log LInfo ''Session expired, cleaning up'', TransportClose 0,
                                  Log LDebug ''Session cleaned up'',
                                  Log LDebug ''Session cleanup completed'']\<rparr>)"
    unfolding cleanupTick_def ex
    by (simp add: oneSession_def idleService_def quietEnv_def logger_def numeral_2_eq_2 Let_def)
  have hook: "cleanupTick hookEnv n 1860000 oneSession = None" for n
  proof -
    let ?w = "logger LInfo ''Session expired, cleaning up'' oneSession"
    let ?s = "\<lparr>sessionId = ''uuid-'', transport = 0, createdAt = 0, lastActivity = 0\<rparr>"
    have "sdkClose hookEnv 0 = CloseInvokesOnclose" by (simp add: hookEnv_def)
    moreover have "''uuid-'' \<noteq> []" by simp
    moreover have "map_of (sessions ?w) ''uuid-'' = Some ?s \<and> transport ?s = 0
                   \<and> map_of (transportIds ?w) 0 = Some ''uuid-''"
      by (simp add: oneSession_def idleService_def)
    ultimately have "terminateSession hookEnv n ?w ''uuid-'' = None"
      using reentry_never_returns [of hookEnv 0 "''uuid-''" ?w ?s n] by blast
    then show ?thesis
      unfolding cleanupTick_def ex by (simp add: Let_def)
  qed
  have again: "terminateSession hookEnv (Suc (Suc n)) oneSession ''uuid-'' =
         (case terminateSession hookEnv n (oneSession\<lparr>trace := [TransportClose 0]\<rparr>) ''uuid-'' of
            None \<Rightarrow> None
          | Some (Throw m, w1) \<Rightarrow> Some (Throw m, w1)
          | Some (Normal u, w1) \<Rightarrow>
              Some (Normal (),
                    logger LDebug ''Session cleaned up''
                      (w1\<lparr>sessions := AList.delete ''uuid-'' (sessions w1),
                          totalSessionsTerminated := totalSessionsTerminated w1 + 1\<rparr>)))" for n
  proof -
    have "oneSession\<lparr>trace := trace oneSession @ [TransportClose 0]\<rparr> =
          oneSession\<lparr>trace := [TransportClose 0]\<rparr>"
      by (simp add: oneSession_def idleService_def)
    with terminateSession_reenters [of hookEnv 0 "''uuid-''" oneSession
        "\<lparr>sessionId = ''uuid-'', transport = 0, createdAt = 0, lastActivity = 0\<rparr>" n]
    show ?thesis by (simp add: hookEnv_def oneSession_def idleService_def)
  qed
  from ex quiet again hook show ?thesis by blast
qed

end
